theory Spec2Isabelle
  imports Complex_Main "HOL-Library.Monad_Syntax"
begin

section \<open>JavaScript values\<close>

text \<open>
  Both programs of the repository (\<^verbatim>\<open>server.js\<close> and the browser script
  \<^verbatim>\<open>public/app.js\<close>) work on values that come out of \<^verbatim>\<open>JSON.parse\<close>:
  request bodies on the server, the persisted location list in the browser. Such a value is
  a tree, so it is a datatype here. An array carries its elements and, being an object, the
  named properties a script may have assigned to it (none after parsing; the only assignment
  the programs make is \<^verbatim>\<open>location.synced = true\<close>). Numbers are
  IEEE doubles in the source; the programs only test them for zero and for equality, and a
  parsed number is never NaN or infinite, so a number is a real here.
\<close>

datatype jsval =
    JUndefined
  | JNull
  | JBool bool
  | JNum real
  | JStr string
  | JArr "jsval list" "(string \<times> jsval) list"
  | JObj "(string \<times> jsval) list"

datatype js_error = TypeError | SyntaxError | Error string

text \<open>\<^verbatim>\<open>!v\<close> is \<open>\<not> truthy v\<close> (the language's ToBoolean).\<close>

fun truthy :: "jsval \<Rightarrow> bool" where
  "truthy JUndefined = False"
| "truthy JNull = False"
| "truthy (JBool b) = b"
| "truthy (JNum x) = (x \<noteq> 0)"
| "truthy (JStr s) = (s \<noteq> [])"
| "truthy (JArr xs ps) = True"
| "truthy (JObj ps) = True"

fun nullish :: "jsval \<Rightarrow> bool" where
  "nullish JUndefined = True"
| "nullish JNull = True"
| "nullish v = False"

text \<open>
  \<^verbatim>\<open>v.k\<close> for the property names the programs read (none of them a built-in
  property of arrays, strings or numbers): a TypeError on \<^verbatim>\<open>null\<close> and
  \<^verbatim>\<open>undefined\<close>, the property or \<^verbatim>\<open>undefined\<close> on an object, and
  \<^verbatim>\<open>undefined\<close> on a primitive.
\<close>

fun get_prop :: "string \<Rightarrow> jsval \<Rightarrow> js_error + jsval" where
  "get_prop k JUndefined = Inl TypeError"
| "get_prop k JNull = Inl TypeError"
| "get_prop k (JObj ps) = Inr (case map_of ps k of None \<Rightarrow> JUndefined | Some v \<Rightarrow> v)"
| "get_prop k (JArr xs ps) = Inr (case map_of ps k of None \<Rightarrow> JUndefined | Some v \<Rightarrow> v)"
| "get_prop k v = Inr JUndefined"

text \<open>The same read where the value is known not to be nullish (after a successful read).\<close>

fun field :: "string \<Rightarrow> jsval \<Rightarrow> jsval" where
  "field k (JObj ps) = (case map_of ps k of None \<Rightarrow> JUndefined | Some v \<Rightarrow> v)"
| "field k (JArr xs ps) = (case map_of ps k of None \<Rightarrow> JUndefined | Some v \<Rightarrow> v)"
| "field k v = JUndefined"

fun upd_assoc :: "string \<Rightarrow> jsval \<Rightarrow> (string \<times> jsval) list \<Rightarrow> (string \<times> jsval) list" where
  "upd_assoc k v [] = [(k, v)]"
| "upd_assoc k v (p # ps) = (if fst p = k then (k, v) # ps else p # upd_assoc k v ps)"

text \<open>
  \<^verbatim>\<open>v.k = w\<close> in a classic (non-strict) script: the property is written on an
  object, and the assignment is silently dropped on a primitive.
\<close>

fun set_prop :: "string \<Rightarrow> jsval \<Rightarrow> jsval \<Rightarrow> js_error + jsval" where
  "set_prop k w JUndefined = Inl TypeError"
| "set_prop k w JNull = Inl TypeError"
| "set_prop k w (JObj ps) = Inr (JObj (upd_assoc k w ps))"
| "set_prop k w (JArr xs ps) = Inr (JArr xs (upd_assoc k w ps))"
| "set_prop k w v = Inr v"

text \<open>
  \<^verbatim>\<open>===\<close> on the values compared in the programs: two primitives are equal when they
  are the same value; an object is never identical to a value held elsewhere.
\<close>

fun strict_eq :: "jsval \<Rightarrow> jsval \<Rightarrow> bool" where
  "strict_eq (JObj ps) w = False"
| "strict_eq (JArr xs ps) w = False"
| "strict_eq v w = (v = w)"

text \<open>
  Whether the conversion of a value to a string throws, as in a template literal
  \<^verbatim>\<open>`${v}`\<close>, in a property key \<^verbatim>\<open>m[v]\<close> and in \<^verbatim>\<open>new Date(v)\<close>. A
  primitive always converts. For an object the language calls its \<^verbatim>\<open>toString\<close> and
  \<^verbatim>\<open>valueOf\<close>: a parsed object that has a property \<^verbatim>\<open>toString\<close> of its own hides
  the inherited method behind a value that cannot be called, the inherited \<^verbatim>\<open>valueOf\<close>
  returns the object itself, and the conversion ends in a TypeError; without that property
  the object converts to \<^verbatim>\<open>[object Object]\<close>. An array joins the conversions of its
  elements, \<^verbatim>\<open>null\<close> and \<^verbatim>\<open>undefined\<close> counting as empty strings (or converts
  like a plain object when a property \<^verbatim>\<open>join\<close> of its own hides the inherited one).
\<close>

fun str_throws :: "jsval \<Rightarrow> bool" where
  "str_throws (JObj ps) = (map_of ps ''toString'' \<noteq> None)"
| "str_throws (JArr xs ps) =
     (if map_of ps ''toString'' \<noteq> None then True
      else if map_of ps ''join'' \<noteq> None then False
      else list_ex (\<lambda>x. if nullish x then False else str_throws x) xs)"
| "str_throws v = False"

section \<open>The server: \<^verbatim>\<open>server.js\<close>\<close>

subsection \<open>Environment, requests, responses\<close>

record env =
  NODE_ENV :: "string option"
  API_KEY :: "string option"

datatype http_method = GET | POST | PUT | DELETE

record request =
  req_method :: http_method
  req_path :: string
  x_api_key :: "string option"
  req_body :: jsval

text \<open>A row of the table \<^verbatim>\<open>locations\<close> created by \<^verbatim>\<open>initDatabase\<close>.\<close>

record row =
  r_id :: int
  r_type :: string
  r_note :: string
  r_latitude :: real
  r_longitude :: real
  r_timestamp :: string
  r_address :: "string option"
  r_created_at :: nat
  r_updated_at :: nat

datatype payload =
    ErrorMsg string
  | HealthError
  | HealthOk nat
  | Saved row
  | ImportReport nat nat nat

record response =
  status :: nat
  payload :: payload

text \<open>
  The database as the handlers see it through \<^verbatim>\<open>pool.query\<close>: whether a query
  can be executed at all, and the rows of the table.
\<close>

record database =
  reachable :: bool
  locations_table :: "row list"

text \<open>
  What the driver and the engine accept as the text of a \<^verbatim>\<open>BIGINT\<close>, a text, a
  \<^verbatim>\<open>DOUBLE PRECISION\<close> and a \<^verbatim>\<open>TIMESTAMPTZ\<close> parameter is not code of this
  repository: it is a parameter of the model (\<open>None\<close>: the engine rejects the value).
\<close>

record pg_codec =
  bigint_in :: "jsval \<Rightarrow> int option"
  text_in :: "jsval \<Rightarrow> string option"
  float8_in :: "jsval \<Rightarrow> real option"
  timestamptz_in :: "jsval \<Rightarrow> string option"

text \<open>A string read from \<^verbatim>\<open>process.env\<close> or from a header is truthy when present and non-empty.\<close>

fun str_set :: "string option \<Rightarrow> bool" where
  "str_set None = False"
| "str_set (Some s) = (s \<noteq> [])"

text \<open>\<^verbatim>\<open>authenticate\<close>: \<open>None\<close> is \<^verbatim>\<open>next()\<close>, \<open>Some r\<close> the response sent.\<close>

definition authenticate :: "env \<Rightarrow> request \<Rightarrow> response option" where
  "authenticate e req =
     (if NODE_ENV e = Some ''development'' \<or> \<not> str_set (API_KEY e) then None
      else if \<not> str_set (x_api_key req) \<or> x_api_key req \<noteq> API_KEY e
        then Some \<lparr>status = 401, payload = ErrorMsg ''Unauthorized''\<rparr>
      else None)"

subsection \<open>The SQL statements\<close>

text \<open>
  A parameter that is \<^verbatim>\<open>null\<close> or \<^verbatim>\<open>undefined\<close> is sent as SQL NULL. The seven
  values of an \<^verbatim>\<open>INSERT INTO locations\<close> become a row when every column accepts its
  value: the \<^verbatim>\<open>NOT NULL\<close> columns are not NULL, \<^verbatim>\<open>type\<close> fits
  \<^verbatim>\<open>VARCHAR(20)\<close> and passes the \<^verbatim>\<open>CHECK\<close>, and \<^verbatim>\<open>created_at\<close>,
  \<^verbatim>\<open>updated_at\<close> default to \<^verbatim>\<open>NOW()\<close>. Otherwise the statement raises an error.
\<close>

definition not_null :: "(jsval \<Rightarrow> 'a option) \<Rightarrow> jsval \<Rightarrow> 'a option" where
  "not_null f v = (if nullish v then None else f v)"

definition nullable :: "(jsval \<Rightarrow> 'a option) \<Rightarrow> jsval \<Rightarrow> 'a option option" where
  "nullable f v = (if nullish v then Some None else map_option Some (f v))"

definition insert_values :: "pg_codec \<Rightarrow> nat \<Rightarrow> jsval list \<Rightarrow> row option" where
  "insert_values pg now params =
     (case params of
        [i, t, n, la, lo, ts, a] \<Rightarrow>
          do {
            i' \<leftarrow> not_null (bigint_in pg) i;
            t' \<leftarrow> not_null (text_in pg) t;
            n' \<leftarrow> not_null (text_in pg) n;
            la' \<leftarrow> not_null (float8_in pg) la;
            lo' \<leftarrow> not_null (float8_in pg) lo;
            ts' \<leftarrow> not_null (timestamptz_in pg) ts;
            a' \<leftarrow> nullable (text_in pg) a;
            if length t' \<le> 20 \<and> (t' = ''plant'' \<or> t' = ''litter'')
            then Some \<lparr>r_id = i', r_type = t', r_note = n', r_latitude = la',
                       r_longitude = lo', r_timestamp = ts', r_address = a',
                       r_created_at = now, r_updated_at = now\<rparr>
            else None
          }
      | _ \<Rightarrow> None)"

text \<open>
  \<^verbatim>\<open>ON CONFLICT (id) DO UPDATE SET type = EXCLUDED.type, ..., updated_at = NOW()\<close>:
  the row with the conflicting key takes the proposed values and keeps its
  \<^verbatim>\<open>created_at\<close>.
\<close>

definition do_update :: "row \<Rightarrow> row \<Rightarrow> row" where
  "do_update excluded old =
     old\<lparr>r_type := r_type excluded, r_note := r_note excluded,
         r_latitude := r_latitude excluded, r_longitude := r_longitude excluded,
         r_timestamp := r_timestamp excluded, r_address := r_address excluded,
         r_updated_at := r_updated_at excluded\<rparr>"

text \<open>
  The statement of \<^verbatim>\<open>POST /api/locations\<close>, with \<^verbatim>\<open>RETURNING *\<close>: the error
  of a rejected query, or the returned rows and the new table.
\<close>

definition upsert_stmt ::
  "pg_codec \<Rightarrow> nat \<Rightarrow> jsval list \<Rightarrow> database \<Rightarrow> js_error + (row list \<times> database)" where
  "upsert_stmt pg now params db =
     (if \<not> reachable db then Inl (Error ''query failed'')
      else case insert_values pg now params of
        None \<Rightarrow> Inl (Error ''query failed'')
      | Some r \<Rightarrow>
          if r_id r \<in> r_id ` set (locations_table db)
          then let tbl = map (\<lambda>old. if r_id old = r_id r then do_update r old else old)
                             (locations_table db)
               in Inr (filter (\<lambda>x. r_id x = r_id r) tbl, db\<lparr>locations_table := tbl\<rparr>)
          else Inr ([r], db\<lparr>locations_table := locations_table db @ [r]\<rparr>))"

text \<open>The statement of \<^verbatim>\<open>POST /api/import\<close>: \<^verbatim>\<open>ON CONFLICT (id) DO NOTHING\<close>.\<close>

definition insert_ignore_stmt ::
  "pg_codec \<Rightarrow> nat \<Rightarrow> jsval list \<Rightarrow> database \<Rightarrow> js_error + database" where
  "insert_ignore_stmt pg now params db =
     (if \<not> reachable db then Inl (Error ''query failed'')
      else case insert_values pg now params of
        None \<Rightarrow> Inl (Error ''query failed'')
      | Some r \<Rightarrow>
          if r_id r \<in> r_id ` set (locations_table db) then Inr db
          else Inr (db\<lparr>locations_table := locations_table db @ [r]\<rparr>))"

subsection \<open>\<^verbatim>\<open>GET /api/health\<close>\<close>

text \<open>The handler runs \<^verbatim>\<open>SELECT NOW()\<close> and reports whether it failed.\<close>

definition health :: "nat \<Rightarrow> database \<Rightarrow> response" where
  "health now db =
     (if \<not> reachable db then \<lparr>status = 503, payload = HealthError\<rparr>
      else \<lparr>status = 200, payload = HealthOk now\<rparr>)"

subsection \<open>\<^verbatim>\<open>POST /api/locations\<close>\<close>

definition is_number :: "jsval \<Rightarrow> bool" where
  "is_number v = (case v of JNum x \<Rightarrow> True | _ \<Rightarrow> False)"

text \<open>
  The body of the handler's \<^verbatim>\<open>try\<close> block. Destructuring a nullish body throws; so
  does a rejected query and reading \<^verbatim>\<open>result.rows[0]\<close> of no row.
\<close>

definition create_location ::
  "pg_codec \<Rightarrow> nat \<Rightarrow> jsval \<Rightarrow> database \<Rightarrow> js_error + (response \<times> database)" where
  "create_location pg now body db =
     (if nullish body then Inl TypeError
      else
        let id = field ''id'' body; type = field ''type'' body; note = field ''note'' body;
            latitude = field ''latitude'' body; longitude = field ''longitude'' body;
            timestamp = field ''timestamp'' body; address = field ''address'' body
        in
          if \<not> truthy id \<or> \<not> truthy type \<or> \<not> truthy note \<or> \<not> truthy latitude
             \<or> \<not> truthy longitude \<or> \<not> truthy timestamp
          then Inr (\<lparr>status = 400, payload = ErrorMsg ''Missing required fields''\<rparr>, db)
          else if type \<noteq> JStr ''plant'' \<and> type \<noteq> JStr ''litter''
          then Inr (\<lparr>status = 400,
                     payload = ErrorMsg ''Invalid type. Must be \"plant\" or \"litter\"''\<rparr>, db)
          else if \<not> is_number latitude \<or> \<not> is_number longitude
          then Inr (\<lparr>status = 400,
                     payload = ErrorMsg ''Latitude and longitude must be numbers''\<rparr>, db)
          else
            case upsert_stmt pg now
                   [id, type, note, latitude, longitude, timestamp,
                    if truthy address then address else JNull] db of
              Inl e \<Rightarrow> Inl e
            | Inr (rs, db') \<Rightarrow>
                (case rs of
                   [] \<Rightarrow> Inl TypeError
                 | r # _ \<Rightarrow> Inr (\<lparr>status = 201, payload = Saved r\<rparr>, db')))"

text \<open>The route: \<^verbatim>\<open>authenticate\<close>, then the handler with its \<^verbatim>\<open>catch\<close>.\<close>

definition post_locations ::
  "pg_codec \<Rightarrow> env \<Rightarrow> nat \<Rightarrow> request \<Rightarrow> database \<Rightarrow> response \<times> database" where
  "post_locations pg e now req db =
     (case authenticate e req of
        Some r \<Rightarrow> (r, db)
      | None \<Rightarrow>
          (case create_location pg now (req_body req) db of
             Inl err \<Rightarrow> (\<lparr>status = 500, payload = ErrorMsg ''Failed to create location''\<rparr>, db)
           | Inr res \<Rightarrow> res))"

subsection \<open>\<^verbatim>\<open>POST /api/import\<close>\<close>

text \<open>
  The parameters of one \<^verbatim>\<open>INSERT\<close> of the import (the coordinates are read from
  \<^verbatim>\<open>loc.lat\<close> and \<^verbatim>\<open>loc.lng\<close> here), and the loop of the handler, with its counters. Each location has its own \<^verbatim>\<open>try\<close>: a
  rejected statement counts as failed. The \<^verbatim>\<open>catch\<close> clause formats
  \<^verbatim>\<open>loc.id\<close> into its message, so an error there leaves the loop, with the rows
  inserted so far kept: reading \<^verbatim>\<open>loc.id\<close> of a nullish element throws inside the
  \<^verbatim>\<open>try\<close> and once more in the \<^verbatim>\<open>catch\<close> clause, and so does the conversion
  to a string of an id that has none, after the statement was rejected.
\<close>

definition import_params :: "jsval \<Rightarrow> jsval list" where
  "import_params loc =
     [field ''id'' loc, field ''type'' loc, field ''note'' loc, field ''lat'' loc,
      field ''lng'' loc, field ''timestamp'' loc, field ''address'' loc]"

fun import_loop ::
  "pg_codec \<Rightarrow> nat \<Rightarrow> jsval list \<Rightarrow> nat \<Rightarrow> nat \<Rightarrow> database
     \<Rightarrow> (js_error + nat \<times> nat) \<times> database" where
  "import_loop pg now [] imported failed db = (Inr (imported, failed), db)"
| "import_loop pg now (loc # locs) imported failed db =
     (if nullish loc then (Inl TypeError, db)
      else
        case insert_ignore_stmt pg now (import_params loc) db of
          Inl err \<Rightarrow>
            if str_throws (field ''id'' loc) then (Inl TypeError, db)
            else import_loop pg now locs imported (failed + 1) db
        | Inr db' \<Rightarrow> import_loop pg now locs (imported + 1) failed db')"

definition import_locations ::
  "pg_codec \<Rightarrow> nat \<Rightarrow> jsval \<Rightarrow> database \<Rightarrow> (js_error + response) \<times> database" where
  "import_locations pg now body db =
     (if nullish body then (Inl TypeError, db)
      else
        case field ''locations'' body of
          JArr locs ps \<Rightarrow>
            (case import_loop pg now locs 0 0 db of
               (Inl err, db') \<Rightarrow> (Inl err, db')
             | (Inr (imported, failed), db') \<Rightarrow>
                 (Inr \<lparr>status = 200, payload = ImportReport imported failed (length locs)\<rparr>,
                  db'))
        | _ \<Rightarrow> (Inr \<lparr>status = 400, payload = ErrorMsg ''Locations must be an array''\<rparr>, db))"

definition post_import ::
  "pg_codec \<Rightarrow> env \<Rightarrow> nat \<Rightarrow> request \<Rightarrow> database \<Rightarrow> response \<times> database" where
  "post_import pg e now req db =
     (case authenticate e req of
        Some r \<Rightarrow> (r, db)
      | None \<Rightarrow>
          (case import_locations pg now (req_body req) db of
             (Inl err, db') \<Rightarrow>
               (\<lparr>status = 500, payload = ErrorMsg ''Failed to import data''\<rparr>, db')
           | (Inr r, db') \<Rightarrow> (r, db')))"

subsection \<open>Routing\<close>

text \<open>
  The routes of this development in the order \<^verbatim>\<open>server.js\<close> registers them, each with
  the middleware the source gives it: \<^verbatim>\<open>app.get('/api/health', (req, res) => ...)\<close>
  has none, the two \<^verbatim>\<open>app.post\<close> routes name \<^verbatim>\<open>authenticate\<close>. The other routes
  of the file (all registered with \<^verbatim>\<open>authenticate\<close>) are outside the development:
  \<open>None\<close>.
\<close>

definition serve ::
  "pg_codec \<Rightarrow> env \<Rightarrow> nat \<Rightarrow> request \<Rightarrow> database \<Rightarrow> (response \<times> database) option" where
  "serve pg e now req db =
     (if req_method req = GET \<and> req_path req = ''/api/health''
        then Some (health now db, db)
      else if req_method req = POST \<and> req_path req = ''/api/locations''
        then Some (post_locations pg e now req db)
      else if req_method req = POST \<and> req_path req = ''/api/import''
        then Some (post_import pg e now req db)
      else None)"

subsection \<open>Concrete values for the server\<close>

text \<open>
  A codec for concrete runs (integral numbers as keys, strings as texts and timestamps,
  numbers as coordinates), two environments, and the record of the specification's example
  as a request body, as a row and as an element of an import.
\<close>

definition demo_codec :: pg_codec where
  "demo_codec =
     \<lparr>bigint_in = (\<lambda>v. case v of JNum x \<Rightarrow> if x = of_int \<lfloor>x\<rfloor> then Some \<lfloor>x\<rfloor> else None
                          | _ \<Rightarrow> None),
      text_in = (\<lambda>v. case v of JStr s \<Rightarrow> Some s | _ \<Rightarrow> None),
      float8_in = (\<lambda>v. case v of JNum x \<Rightarrow> Some x | _ \<Rightarrow> None),
      timestamptz_in = (\<lambda>v. case v of JStr s \<Rightarrow> Some s | _ \<Rightarrow> None)\<rparr>"

definition production_env :: env where
  "production_env = \<lparr>NODE_ENV = Some ''production'', API_KEY = Some ''secret''\<rparr>"

definition development_env :: env where
  "development_env = \<lparr>NODE_ENV = Some ''development'', API_KEY = None\<rparr>"

definition kudzu :: "real \<Rightarrow> real \<Rightarrow> string \<Rightarrow> jsval" where
  "kudzu la lo n =
     JObj [(''id'', JNum 1700000000000), (''type'', JStr ''plant''), (''note'', JStr n),
           (''latitude'', JNum la), (''longitude'', JNum lo),
           (''timestamp'', JStr ''2023-11-14T22:13:20.000Z''), (''address'', JStr ''Main St'')]"

definition demo_request :: "jsval \<Rightarrow> request" where
  "demo_request b =
     \<lparr>req_method = POST, req_path = ''/api/locations'', x_api_key = None, req_body = b\<rparr>"

definition empty_db :: database where
  "empty_db = \<lparr>reachable = True, locations_table = []\<rparr>"

definition kudzu_row :: "string \<Rightarrow> nat \<Rightarrow> nat \<Rightarrow> row" where
  "kudzu_row n c u =
     \<lparr>r_id = 1700000000000, r_type = ''plant'', r_note = n, r_latitude = 38.84,
      r_longitude = -77.18, r_timestamp = ''2023-11-14T22:13:20.000Z'',
      r_address = Some ''Main St'', r_created_at = c, r_updated_at = u\<rparr>"

definition kudzu_export :: "string \<Rightarrow> jsval" where
  "kudzu_export n =
     JObj [(''id'', JNum 1700000000000), (''type'', JStr ''plant''), (''note'', JStr n),
           (''lat'', JNum 38.84), (''lng'', JNum (-77.18)),
           (''timestamp'', JStr ''2023-11-14T22:13:20.000Z''), (''address'', JStr ''Main St'')]"

text \<open>The same observation sent again with every other field changed, and its row.\<close>

definition kudzu_moved :: jsval where
  "kudzu_moved =
     JObj [(''id'', JNum 1700000000000), (''type'', JStr ''litter''), (''note'', JStr ''bottle''),
           (''latitude'', JNum 1.5), (''longitude'', JNum 2.25),
           (''timestamp'', JStr ''2024-01-01T00:00:00.000Z''), (''address'', JStr ''Oak Ave'')]"

definition moved_row :: "nat \<Rightarrow> nat \<Rightarrow> row" where
  "moved_row c u =
     \<lparr>r_id = 1700000000000, r_type = ''litter'', r_note = ''bottle'', r_latitude = 1.5,
      r_longitude = 2.25, r_timestamp = ''2024-01-01T00:00:00.000Z'',
      r_address = Some ''Oak Ave'', r_created_at = c, r_updated_at = u\<rparr>"

definition kudzu_db :: database where
  "kudzu_db = \<lparr>reachable = True, locations_table = [kudzu_row ''kudzu'' 5 5]\<rparr>"

definition import_request :: "jsval list \<Rightarrow> request" where
  "import_request locs =
     \<lparr>req_method = POST, req_path = ''/api/import'', x_api_key = None,
      req_body = JObj [(''locations'', JArr locs [])]\<rparr>"

section \<open>The browser application: \<^verbatim>\<open>public/app.js\<close>\<close>

subsection \<open>The browser and the state of the application\<close>

text \<open>
  What the script calls and does not define is a parameter: \<^verbatim>\<open>JSON.parse\<close> (\<open>None\<close>:
  a SyntaxError), \<^verbatim>\<open>JSON.stringify\<close>, the outcome of the k-th call of \<^verbatim>\<open>fetch\<close>
  (the promise is rejected, or a response with a status arrives), and whether Leaflet's
  \<^verbatim>\<open>L.marker([lat, lng])\<close> accepts a pair of coordinates or throws.
\<close>

datatype fetch_result = Rejected | Responded nat

record browser =
  JSON_parse :: "string \<Rightarrow> jsval option"
  JSON_stringify :: "jsval \<Rightarrow> string"
  fetch_reply :: "nat \<Rightarrow> fetch_result"
  L_marker :: "jsval \<Rightarrow> jsval \<Rightarrow> bool"

text \<open>\<^verbatim>\<open>response.ok\<close>.\<close>

definition response_ok :: "nat \<Rightarrow> bool" where
  "response_ok st = (200 \<le> st \<and> st \<le> 299)"

text \<open>The calls of \<^verbatim>\<open>fetch\<close> the script makes: server URL, API key, and the body or the id.\<close>

datatype remote_call =
    PostLocation string string jsval
  | DeleteLocation string string jsval
  | GetHealth string string

text \<open>A message is a template literal: its texts, and the values and counts put into it.\<close>

datatype part = Txt string | Val jsval | Cnt nat

type_synonym message = "part list"

text \<open>
  The object \<^verbatim>\<open>app\<close> (with \<^verbatim>\<open>config\<close> and \<^verbatim>\<open>syncState\<close> flattened), followed by
  what the script changes around it: the class of the element \<^verbatim>\<open>syncIndicator\<close>, the
  toasts shown, the entries of the element \<^verbatim>\<open>debugLog\<close>, the messages of
  \<^verbatim>\<open>console.error\<close>, \<^verbatim>\<open>localStorage\<close>, and the calls of \<^verbatim>\<open>fetch\<close> made so
  far, in order. The elements of the page are taken to exist, as in the application's page;
  the Leaflet map and its markers are left out, and so is the storage quota. The store
  \<^verbatim>\<open>app.locations\<close> is whatever value the script has put there; the objects in it are
  not shared (they come from \<^verbatim>\<open>JSON.parse\<close> or from an object literal pushed once), so
  the value is a tree and a reference to one of its elements is its index. The fields of
  \<^verbatim>\<open>app\<close> that the functions below do not touch (\<^verbatim>\<open>currentType\<close>,
  \<^verbatim>\<open>currentPosition\<close>, \<^verbatim>\<open>syncInterval\<close>) are left out. A call of an
  \<^verbatim>\<open>async\<close> function is followed to its end, with no other event handler running
  between its steps.
\<close>

record app =
  locations :: jsval
  currentFilter :: string
  serverUrl :: string
  apiKey :: string
  offlineMode :: bool
  isSyncing :: bool
  lastSync :: "nat option"
  pendingSync :: "jsval list"
  syncIndicator :: string
  toasts :: "(message \<times> string) list"
  debugLog :: "(message \<times> string) list"
  console_error :: "message list"
  localStorage :: "string \<Rightarrow> string option"
  sent :: "remote_call list"

subsection \<open>The page\<close>

definition updateSyncIndicator :: "string \<Rightarrow> app \<Rightarrow> app" where
  "updateSyncIndicator st s =
     s\<lparr>syncIndicator :=
         (if st = ''online'' then ''online''
          else if st = ''offline'' then ''offline''
          else if st = ''syncing'' then ''syncing''
          else [])\<rparr>"

definition showToast :: "message \<Rightarrow> string \<Rightarrow> app \<Rightarrow> app" where
  "showToast m ty s = s\<lparr>toasts := toasts s @ [(m, ty)]\<rparr>"

text \<open>\<^verbatim>\<open>app.log\<close>: the entry is appended and the oldest entries beyond 100 are removed.\<close>

definition app_log :: "message \<Rightarrow> string \<Rightarrow> app \<Rightarrow> app" where
  "app_log m ty s =
     (let entries = debugLog s @ [(m, ty)]
      in s\<lparr>debugLog := drop (length entries - 100) entries\<rparr>)"

definition saveToLocalStorage :: "browser \<Rightarrow> app \<Rightarrow> app" where
  "saveToLocalStorage br s =
     s\<lparr>localStorage := (localStorage s)(''tracker_locations'' \<mapsto> JSON_stringify br (locations s))\<rparr>"

text \<open>
  \<^verbatim>\<open>updateStats\<close> and \<^verbatim>\<open>updateLocationList\<close> write to the page only; what matters
  here is whether they throw. \<^verbatim>\<open>updateStats\<close> calls \<^verbatim>\<open>this.locations.filter\<close> with
  callbacks that read a property of every element and compare it.
\<close>

fun updateStats :: "app \<Rightarrow> js_error option" where
  "updateStats s =
     (case locations s of
        JArr xs ps \<Rightarrow> if list_ex nullish xs then Some TypeError else None
      | _ \<Rightarrow> Some TypeError)"

text \<open>
  The item \<^verbatim>\<open>updateLocationList\<close> writes for one location puts \<^verbatim>\<open>type\<close>,
  \<^verbatim>\<open>note\<close>, \<^verbatim>\<open>address\<close> and \<^verbatim>\<open>id\<close> into a template literal and gives
  \<^verbatim>\<open>timestamp\<close> to \<^verbatim>\<open>new Date\<close> (as the comparison of the sort does): it throws
  when one of them does not convert to a string.
\<close>

definition item_throws :: "jsval \<Rightarrow> bool" where
  "item_throws location =
     (str_throws (field ''type'' location) \<or> str_throws (field ''note'' location)
      \<or> str_throws (field ''timestamp'' location) \<or> str_throws (field ''address'' location)
      \<or> str_throws (field ''id'' location))"

text \<open>
  \<^verbatim>\<open>updateLocationList\<close> keeps the locations whose \<^verbatim>\<open>type\<close> is the current
  filter, with a callback that reads \<^verbatim>\<open>l.type\<close> of every element, unless the filter is
  \<^verbatim>\<open>'all'\<close>; it returns when \<^verbatim>\<open>length\<close> is 0, and otherwise spreads the value
  into an array, sorts it and writes an item for every element.
\<close>

definition updateLocationList :: "app \<Rightarrow> js_error option" where
  "updateLocationList s =
     (case locations s of
        JArr xs ps \<Rightarrow>
          if list_ex nullish xs then Some TypeError
          else
            let filteredLocations =
                  (if currentFilter s = ''all'' then xs
                   else filter (\<lambda>l. strict_eq (field ''type'' l) (JStr (currentFilter s))) xs)
            in if list_ex item_throws filteredLocations then Some TypeError else None
      | JStr str \<Rightarrow> if currentFilter s = ''all'' then None else Some TypeError
      | JObj ps \<Rightarrow>
          if currentFilter s = ''all'' \<and> field ''length'' (JObj ps) = JNum 0 then None
          else Some TypeError
      | _ \<Rightarrow> Some TypeError)"

text \<open>
  \<^verbatim>\<open>addMarker\<close>: reads \<^verbatim>\<open>location.type\<close>, builds the Leaflet marker, fills the
  popup from a template literal with \<^verbatim>\<open>new Date(location.timestamp)\<close> and
  \<^verbatim>\<open>location.note\<close>, and stores the marker under the key \<^verbatim>\<open>location.id\<close>.
\<close>

definition addMarker :: "browser \<Rightarrow> jsval \<Rightarrow> js_error option" where
  "addMarker br location =
     (if nullish location then Some TypeError
      else if \<not> L_marker br (field ''lat'' location) (field ''lng'' location)
        then Some (Error ''Invalid LatLng object'')
      else if str_throws (field ''timestamp'' location) \<or> str_throws (field ''note'' location)
              \<or> str_throws (field ''id'' location)
        then Some TypeError
      else None)"

subsection \<open>References into the store\<close>

text \<open>\<^verbatim>\<open>this.locations[i]\<close>, and the assignment \<^verbatim>\<open>location.synced = true\<close> through it.\<close>

definition element :: "nat \<Rightarrow> jsval \<Rightarrow> jsval" where
  "element i v =
     (case v of
        JArr xs ps \<Rightarrow> if i < length xs then xs ! i else JUndefined
      | _ \<Rightarrow> JUndefined)"

definition assign_synced :: "nat \<Rightarrow> app \<Rightarrow> js_error + app" where
  "assign_synced i s =
     (case locations s of
        JArr xs ps \<Rightarrow>
          if i < length xs then
            (case set_prop ''synced'' (JBool True) (xs ! i) of
               Inl e \<Rightarrow> Inl e
             | Inr x \<Rightarrow> Inr (s\<lparr>locations := JArr (xs[i := x]) ps\<rparr>))
          else Inl TypeError
      | _ \<Rightarrow> Inl TypeError)"

text \<open>
  The object literal given to \<^verbatim>\<open>JSON.stringify\<close> as the body of an upsert; reading
  the properties of a nullish location throws.
\<close>

definition request_body :: "jsval \<Rightarrow> jsval" where
  "request_body location =
     JObj [(''id'', field ''id'' location), (''type'', field ''type'' location),
           (''note'', field ''note'' location), (''latitude'', field ''lat'' location),
           (''longitude'', field ''lng'' location), (''timestamp'', field ''timestamp'' location),
           (''address'', field ''address'' location)]"

definition upsert_body :: "jsval \<Rightarrow> js_error + jsval" where
  "upsert_body location =
     (if nullish location then Inl TypeError else Inr (request_body location))"

subsection \<open>\<^verbatim>\<open>syncLocationToServer\<close>\<close>

text \<open>
  The \<^verbatim>\<open>catch\<close> clause: \<^verbatim>\<open>pendingSync.push(location.id)\<close> (which throws out of the
  function on a nullish location), the indicator, the log.
\<close>

definition sync_failed :: "jsval \<Rightarrow> message \<Rightarrow> app \<Rightarrow> js_error option \<times> app" where
  "sync_failed location reason s =
     (case get_prop ''id'' location of
        Inl e \<Rightarrow> (Some e, s)
      | Inr i \<Rightarrow>
          (None,
           app_log (Txt ''Sync failed: '' # reason @ [Txt '' (will retry)'']) ''warning''
             (updateSyncIndicator ''offline'' (s\<lparr>pendingSync := pendingSync s @ [i]\<rparr>))))"

text \<open>
  The argument \<^verbatim>\<open>location\<close> is the element \<open>i\<close> of the store (\<^verbatim>\<open>saveLocation\<close>
  passes the object it has just pushed). The result is the error the function ends with, if
  any, and the state. Whatever throws inside the \<^verbatim>\<open>try\<close> (reading a nullish
  location, \<^verbatim>\<open>updateLocationList\<close>, the id in the message of the log) is caught.
\<close>

definition syncLocationToServer :: "browser \<Rightarrow> nat \<Rightarrow> app \<Rightarrow> js_error option \<times> app" where
  "syncLocationToServer br i s =
     (let location = element i (locations s) in
      if offlineMode s then
        (case get_prop ''id'' location of
           Inl e \<Rightarrow> (Some e, s)
         | Inr v \<Rightarrow>
             (None, app_log [Txt ''Offline mode: Location queued for sync''] ''warning''
                      (s\<lparr>pendingSync := pendingSync s @ [v]\<rparr>)))
      else
        case upsert_body location of
          Inl e \<Rightarrow> sync_failed location [Txt ''TypeError''] s
        | Inr body \<Rightarrow>
            let s1 = s\<lparr>sent := sent s @ [PostLocation (serverUrl s) (apiKey s) body]\<rparr> in
            (case fetch_reply br (length (sent s)) of
               Rejected \<Rightarrow> sync_failed location [Txt ''fetch rejected''] s1
             | Responded st \<Rightarrow>
                 if response_ok st then
                   (case assign_synced i s1 of
                      Inl e \<Rightarrow> sync_failed location [Txt ''TypeError''] s1
                    | Inr s2 \<Rightarrow>
                        let s3 = saveToLocalStorage br s2 in
                        (case updateLocationList s3 of
                           Some e \<Rightarrow>
                             sync_failed (element i (locations s3)) [Txt ''TypeError''] s3
                         | None \<Rightarrow>
                             let s4 = updateSyncIndicator ''online'' s3 in
                             if str_throws (field ''id'' (element i (locations s4)))
                             then sync_failed (element i (locations s4)) [Txt ''TypeError''] s4
                             else
                               (None,
                                app_log [Txt ''Location synced to server: ID '',
                                         Val (field ''id'' (element i (locations s4)))] ''success''
                                  s4)))
                 else sync_failed location [Txt ''Server returned error: '', Cnt st] s1))"

subsection \<open>\<^verbatim>\<open>syncNow\<close>\<close>

text \<open>
  \<^verbatim>\<open>this.locations.filter(l => !l.synced)\<close>: a TypeError when the store is not an array
  or holds a nullish element; otherwise the references to the pending elements, in order.
\<close>

definition pending :: "jsval list \<Rightarrow> nat list" where
  "pending xs = filter (\<lambda>i. \<not> truthy (field ''synced'' (xs ! i))) [0..<length xs]"

definition unsynced :: "jsval \<Rightarrow> js_error + nat list" where
  "unsynced v =
     (case v of
        JArr xs ps \<Rightarrow> if list_ex nullish xs then Inl TypeError else Inr (pending xs)
      | _ \<Rightarrow> Inl TypeError)"

text \<open>
  One turn of the loop, for the reference \<open>i\<close>: everything is inside the
  \<^verbatim>\<open>try\<close>, and the \<^verbatim>\<open>catch\<close> clause counts a failure.
\<close>

definition sync_one :: "browser \<Rightarrow> nat \<Rightarrow> app \<times> nat \<times> nat \<Rightarrow> app \<times> nat \<times> nat" where
  "sync_one br i acc =
     (case acc of (s, successCount, failCount) \<Rightarrow>
        (case upsert_body (element i (locations s)) of
           Inl e \<Rightarrow> (s, successCount, failCount + 1)
         | Inr body \<Rightarrow>
             let s1 = s\<lparr>sent := sent s @ [PostLocation (serverUrl s) (apiKey s) body]\<rparr> in
             (case fetch_reply br (length (sent s)) of
                Rejected \<Rightarrow> (s1, successCount, failCount + 1)
              | Responded st \<Rightarrow>
                  if response_ok st then
                    (case assign_synced i s1 of
                       Inl e \<Rightarrow> (s1, successCount, failCount + 1)
                     | Inr s2 \<Rightarrow> (s2, successCount + 1, failCount))
                  else (s1, successCount, failCount + 1))))"

fun sync_each :: "browser \<Rightarrow> nat list \<Rightarrow> app \<times> nat \<times> nat \<Rightarrow> app \<times> nat \<times> nat" where
  "sync_each br [] acc = acc"
| "sync_each br (i # unsyncedLocations) acc = sync_each br unsyncedLocations (sync_one br i acc)"

definition syncNow :: "browser \<Rightarrow> nat \<Rightarrow> app \<Rightarrow> js_error option \<times> app" where
  "syncNow br now s =
     (if isSyncing s then (None, showToast [Txt ''Sync already in progress''] ''error'' s)
      else
        let s1 = app_log [Txt ''Starting manual sync...''] ''info''
                   (updateSyncIndicator ''syncing'' (s\<lparr>isSyncing := True\<rparr>)) in
        case unsynced (locations s1) of
          Inl e \<Rightarrow> (Some e, s1)
        | Inr unsyncedLocations \<Rightarrow>
            if length unsyncedLocations = 0 then
              (None, updateSyncIndicator ''online''
                       ((showToast [Txt ''All locations already synced''] ''success'' s1)
                          \<lparr>isSyncing := False\<rparr>))
            else
              (case sync_each br unsyncedLocations (s1, 0, 0) of
                 (s2, successCount, failCount) \<Rightarrow>
                   let s3 = saveToLocalStorage br s2 in
                   (case updateLocationList s3 of
                      Some e \<Rightarrow> (Some e, s3)
                    | None \<Rightarrow>
                        let s4 = s3\<lparr>isSyncing := False, lastSync := Some now\<rparr> in
                        if failCount = 0 then
                          (None,
                           app_log [Txt ''Sync complete: '', Cnt successCount, Txt '' synced'']
                             ''success''
                             (showToast [Txt ''Synced '', Cnt successCount, Txt '' locations'']
                                ''success''
                                (updateSyncIndicator ''online'' (s4\<lparr>offlineMode := False\<rparr>))))
                        else
                          (None,
                           app_log [Txt ''Sync partial: '', Cnt successCount, Txt '' synced, '',
                                    Cnt failCount, Txt '' failed''] ''warning''
                             (showToast [Txt ''Synced '', Cnt successCount, Txt '', failed '',
                                         Cnt failCount] ''error''
                                (updateSyncIndicator ''offline'' s4))))))"

subsection \<open>\<^verbatim>\<open>deleteLocation\<close> and \<^verbatim>\<open>deleteFromServer\<close>\<close>

text \<open>\<^verbatim>\<open>xs.find(l => l.id === id)\<close>: stops at the first match.\<close>

fun find_id :: "jsval \<Rightarrow> jsval list \<Rightarrow> js_error + jsval" where
  "find_id id' [] = Inr JUndefined"
| "find_id id' (l # ls) =
     (if nullish l then Inl TypeError
      else if strict_eq (field ''id'' l) id' then Inr l
      else find_id id' ls)"

text \<open>\<^verbatim>\<open>xs.filter(l => l.id !== id)\<close>: visits every element.\<close>

definition without_id :: "jsval \<Rightarrow> jsval list \<Rightarrow> js_error + jsval list" where
  "without_id id' ls =
     (if list_ex nullish ls then Inl TypeError
      else Inr (filter (\<lambda>l. \<not> strict_eq (field ''id'' l) id') ls))"

text \<open>
  \<^verbatim>\<open>deleteFromServer\<close> up to its \<^verbatim>\<open>await\<close>: the guard, the URL (a template
  literal with the id, inside the \<^verbatim>\<open>try\<close>) and the call of \<^verbatim>\<open>fetch\<close>; and its
  continuation once the call has settled: the status of a response is not looked at.
\<close>

definition deleteFromServer_call :: "jsval \<Rightarrow> app \<Rightarrow> app" where
  "deleteFromServer_call id' s =
     (if offlineMode s then s
      else if str_throws id'
        then app_log [Txt ''Delete from server failed: '', Txt ''TypeError''] ''error'' s
      else s\<lparr>sent := sent s @ [DeleteLocation (serverUrl s) (apiKey s) id']\<rparr>)"

definition deleteFromServer_settled :: "browser \<Rightarrow> jsval \<Rightarrow> nat \<Rightarrow> app \<Rightarrow> app" where
  "deleteFromServer_settled br id' k s =
     (case fetch_reply br k of
        Rejected \<Rightarrow>
          app_log [Txt ''Delete from server failed: '', Txt ''fetch rejected''] ''error'' s
      | Responded st \<Rightarrow>
          app_log [Txt ''Location deleted from server: ID '', Val id'] ''success'' s)"

definition deleteFromServer :: "browser \<Rightarrow> jsval \<Rightarrow> app \<Rightarrow> app" where
  "deleteFromServer br id' s =
     (if offlineMode s \<or> str_throws id' then deleteFromServer_call id' s
      else deleteFromServer_settled br id' (length (sent s)) (deleteFromServer_call id' s))"

text \<open>
  \<^verbatim>\<open>deleteLocation\<close>, with the user's answer to \<^verbatim>\<open>confirm\<close>. After the lookup
  the id is used as a key of \<^verbatim>\<open>this.markers\<close>, which throws when it does not convert
  to a string. The call of \<^verbatim>\<open>deleteFromServer\<close> is not awaited: its \<^verbatim>\<open>fetch\<close> is
  issued at once, the toast and the log entry of \<^verbatim>\<open>deleteLocation\<close> follow, and the
  continuation of \<^verbatim>\<open>deleteFromServer\<close> runs after them.
\<close>

definition deleteLocation :: "browser \<Rightarrow> bool \<Rightarrow> jsval \<Rightarrow> app \<Rightarrow> js_error option \<times> app" where
  "deleteLocation br confirmed id' s =
     (if \<not> confirmed then (None, s)
      else
        case locations s of
          JArr xs ps \<Rightarrow>
            (case find_id id' xs of
               Inl e \<Rightarrow> (Some e, s)
             | Inr location \<Rightarrow>
                 if str_throws id' then (Some TypeError, s)
                 else
                 (case without_id id' xs of
                    Inl e \<Rightarrow> (Some e, s)
                  | Inr ys \<Rightarrow>
                      let s1 = saveToLocalStorage br (s\<lparr>locations := JArr ys []\<rparr>) in
                      (case updateStats s1 of
                         Some e \<Rightarrow> (Some e, s1)
                       | None \<Rightarrow>
                           (case updateLocationList s1 of
                              Some e \<Rightarrow> (Some e, s1)
                            | None \<Rightarrow>
                                let remote = truthy location \<and> truthy (field ''synced'' location)
                                               \<and> \<not> offlineMode s1;
                                    s2 = (if truthy location \<and> truthy (field ''synced'' location)
                                          then deleteFromServer_call id' s1 else s1);
                                    s3 = app_log [Txt ''Location deleted: ID '', Val id'] ''info''
                                           (showToast [Txt ''Location deleted''] ''success'' s2)
                                in (None,
                                    if remote
                                    then deleteFromServer_settled br id' (length (sent s1)) s3
                                    else s3)))))
        | _ \<Rightarrow> (Some TypeError, s))"

subsection \<open>\<^verbatim>\<open>checkConnection\<close>\<close>

text \<open>
  The probe and the value returned. The \<^verbatim>\<open>catch\<close> clause is reached by a rejected
  \<^verbatim>\<open>fetch\<close> only; after a response that is not \<^verbatim>\<open>ok\<close> the function falls through
  to \<^verbatim>\<open>return false\<close>.
\<close>

definition checkConnection :: "browser \<Rightarrow> app \<Rightarrow> bool \<times> app" where
  "checkConnection br s =
     (let s1 = s\<lparr>sent := sent s @ [GetHealth (serverUrl s) (apiKey s)]\<rparr> in
      case fetch_reply br (length (sent s)) of
        Rejected \<Rightarrow>
          (False,
           app_log [Txt ''Server offline - running in offline mode''] ''warning''
             (updateSyncIndicator ''offline'' (s1\<lparr>offlineMode := True\<rparr>)))
      | Responded st \<Rightarrow>
          if response_ok st then
            (True,
             app_log [Txt ''Server connection established''] ''success''
               (updateSyncIndicator ''online'' (s1\<lparr>offlineMode := False\<rparr>)))
          else (False, s1))"

subsection \<open>\<^verbatim>\<open>loadStoredLocations\<close>\<close>

text \<open>\<^verbatim>\<open>this.locations.forEach(location => this.addMarker(location))\<close>.\<close>

fun addMarkers :: "browser \<Rightarrow> jsval list \<Rightarrow> js_error option" where
  "addMarkers br [] = None"
| "addMarkers br (l # ls) =
     (case addMarker br l of Some e \<Rightarrow> Some e | None \<Rightarrow> addMarkers br ls)"

definition forEach_addMarker :: "browser \<Rightarrow> jsval \<Rightarrow> js_error option" where
  "forEach_addMarker br v = (case v of JArr xs ps \<Rightarrow> addMarkers br xs | _ \<Rightarrow> Some TypeError)"

definition load_failed :: "app \<Rightarrow> app" where
  "load_failed s = s\<lparr>console_error := console_error s @ [[Txt ''Failed to load from localStorage:'']]\<rparr>"

text \<open>
  The whole body is inside \<^verbatim>\<open>try\<close>; the \<^verbatim>\<open>catch\<close> clause writes to the console and
  nothing else, so the function always returns. The parsed value is assigned to
  \<^verbatim>\<open>this.locations\<close> before anything looks at it.
\<close>

definition loadStoredLocations :: "browser \<Rightarrow> app \<Rightarrow> app" where
  "loadStoredLocations br s =
     (case localStorage s ''tracker_locations'' of
        None \<Rightarrow> s
      | Some stored \<Rightarrow>
          if stored = [] then s
          else
            (case JSON_parse br stored of
               None \<Rightarrow> load_failed s
             | Some v \<Rightarrow>
                 let s1 = s\<lparr>locations := v\<rparr> in
                 (case forEach_addMarker br v of
                    Some e \<Rightarrow> load_failed s1
                  | None \<Rightarrow>
                      (case updateStats s1 of
                         Some e \<Rightarrow> load_failed s1
                       | None \<Rightarrow>
                           (case updateLocationList s1 of
                              Some e \<Rightarrow> load_failed s1
                            | None \<Rightarrow>
                                app_log [Txt ''Loaded '',
                                         Cnt (case v of JArr xs ps \<Rightarrow> length xs | _ \<Rightarrow> 0),
                                         Txt '' locations from storage''] ''success'' s1)))))"

subsection \<open>Vocabulary of the properties\<close>

text \<open>
  A location record in the store: an object whose \<^verbatim>\<open>id\<close> is a number and whose
  \<^verbatim>\<open>type\<close>, \<^verbatim>\<open>note\<close>, \<^verbatim>\<open>timestamp\<close> and \<^verbatim>\<open>address\<close> convert to
  strings, so that the list can show it. The records \<^verbatim>\<open>saveLocation\<close> and
  \<^verbatim>\<open>addManualLocation\<close> create are of this kind (\<^verbatim>\<open>id: Date.now()\<close>, the other
  four strings).
\<close>

fun location_record :: "jsval \<Rightarrow> bool" where
  "location_record (JObj fs) = (is_number (field ''id'' (JObj fs)) \<and> \<not> item_throws (JObj fs))"
| "location_record v = False"

text \<open>Whether the k-th call of \<^verbatim>\<open>fetch\<close> brings a response that is \<^verbatim>\<open>ok\<close>.\<close>

definition upsert_ok :: "browser \<Rightarrow> nat \<Rightarrow> bool" where
  "upsert_ok br k = (case fetch_reply br k of Rejected \<Rightarrow> False | Responded st \<Rightarrow> response_ok st)"

text \<open>A record after \<^verbatim>\<open>location.synced = true\<close>.\<close>

definition mark :: "jsval \<Rightarrow> jsval" where
  "mark x = (case x of JObj fs \<Rightarrow> JObj (upd_assoc ''synced'' (JBool True) fs) | _ \<Rightarrow> x)"

subsection \<open>Concrete values for the browser\<close>

text \<open>
  A browser for concrete runs: it parses three texts and no other, accepts numeric
  coordinates, and answers the calls of \<^verbatim>\<open>fetch\<close> as the given function says. The
  application starts with an empty store, as the object literal \<^verbatim>\<open>app\<close> has it.
\<close>

definition demo_browser :: "(nat \<Rightarrow> fetch_result) \<Rightarrow> browser" where
  "demo_browser replies =
     \<lparr>JSON_parse = (\<lambda>t. if t = ''{}'' then Some (JObj [])
                         else if t = ''[null]'' then Some (JArr [JNull] [])
                         else if t = ''[]'' then Some (JArr [] [])
                         else None),
      JSON_stringify = (\<lambda>v. case v of JArr [] ps \<Rightarrow> ''[]'' | JArr (x # xs) ps \<Rightarrow> ''[...]''
                                     | JObj ps \<Rightarrow> ''{...}'' | _ \<Rightarrow> ''...''),
      fetch_reply = replies,
      L_marker = (\<lambda>la lo. is_number la \<and> is_number lo)\<rparr>"

definition initial_app :: app where
  "initial_app =
     \<lparr>locations = JArr [] [], currentFilter = ''all'', serverUrl = ''http://localhost:3000'',
      apiKey = [], offlineMode = False, isSyncing = False, lastSync = None, pendingSync = [],
      syncIndicator = [], toasts = [], debugLog = [], console_error = [],
      localStorage = Map.empty, sent = []\<rparr>"

definition observation :: "real \<Rightarrow> string \<Rightarrow> bool \<Rightarrow> jsval" where
  "observation i n sy =
     JObj [(''id'', JNum i), (''type'', JStr ''plant''), (''note'', JStr n),
           (''lat'', JNum 38.84), (''lng'', JNum (-77.18)),
           (''timestamp'', JStr ''2023-11-14T22:13:20.000Z''), (''address'', JStr ''Main St''),
           (''synced'', JBool sy)]"

definition synced_app :: "bool \<Rightarrow> app" where
  "synced_app offline =
     initial_app\<lparr>locations := JArr [observation 1700000000000 ''kudzu'' True] [],
                 offlineMode := offline\<rparr>"


definition pending_app :: app where
  "pending_app =
     initial_app\<lparr>locations := JArr [observation 1 ''kudzu'' False, observation 2 ''ivy'' True,
                                     observation 3 ''can'' False] []\<rparr>"

text \<open>
  A store as a persisted text can leave it: beside a synced record, a pending one whose
  \<^verbatim>\<open>note\<close> is the object \<^verbatim>\<open>{"toString": 1}\<close>, which no template literal can show.
\<close>

definition unshown_app :: app where
  "unshown_app =
     initial_app\<lparr>locations :=
       JArr [observation 1 ''kudzu'' True,
             JObj [(''id'', JNum 2), (''type'', JStr ''plant''),
                   (''note'', JObj [(''toString'', JNum 1)]), (''synced'', JBool False)]] []\<rparr>"

section \<open>Properties of the server\<close>

subsection \<open>The statements\<close>

lemma insert_values_SomeD:
  assumes "insert_values pg now [i, t, n, la, lo, ts, a] = Some r"
  shows "bigint_in pg i = Some (r_id r)" and "text_in pg t = Some (r_type r)"
    and "text_in pg n = Some (r_note r)" and "float8_in pg la = Some (r_latitude r)"
    and "float8_in pg lo = Some (r_longitude r)" and "timestamptz_in pg ts = Some (r_timestamp r)"
    and "r_created_at r = now" and "r_updated_at r = now" and "\<not> nullish i"
    and "nullable (text_in pg) a = Some (r_address r)"
  using assms
  by (auto simp: insert_values_def not_null_def bind_eq_Some_conv split: if_splits)

lemma insert_values_upd: "insert_values pg now params = Some r \<Longrightarrow> r_updated_at r = now"
  by (auto simp: insert_values_def not_null_def nullable_def bind_eq_Some_conv split: if_splits list.splits)

lemma filter_key_distinct:
  "distinct (map f xs) \<Longrightarrow> x \<in> set xs \<Longrightarrow> filter (\<lambda>y. f y = f x) xs = [x]"
proof (induction xs)
  case Nil then show ?case by simp
next
  case (Cons a xs)
  show ?case
  proof (cases "a = x")
    case True
    with Cons.prems have "f x \<notin> f ` set xs" by simp
    then have "\<forall>y\<in>set xs. f y \<noteq> f x" by (metis imageI)
    then have "filter (\<lambda>y. f y = f x) xs = []" by (simp add: filter_empty_conv)
    with True show ?thesis by simp
  next
    case False
    with Cons.prems have "x \<in> set xs" and "f a \<noteq> f x" by force+
    with Cons show ?thesis by simp
  qed
qed

lemma do_update_id [simp]: "r_id (do_update r old) = r_id old"
  by (simp add: do_update_def)

lemma conflict_keys: "map r_id (map (\<lambda>old. if r_id old = k then do_update r old else old) tbl) = map r_id tbl"
  by (induction tbl) auto

lemma conflict_filter:
  "filter (\<lambda>x. r_id x = k) (map (\<lambda>old. if r_id old = k then do_update r old else old) tbl)
     = map (\<lambda>old. if r_id old = k then do_update r old else old) (filter (\<lambda>x. r_id x = k) tbl)"
  by (induction tbl) auto

lemma upsert_stmt_InrD:
  assumes "upsert_stmt pg now params db = Inr (rs, db')"
    and "distinct (map r_id (locations_table db))"
  shows "\<exists>v r. insert_values pg now params = Some v \<and> rs = [r]
            \<and> filter (\<lambda>x. r_id x = r_id v) (locations_table db') = [r]
            \<and> r_id r = r_id v \<and> r_note r = r_note v \<and> r_type r = r_type v
            \<and> r_latitude r = r_latitude v \<and> r_longitude r = r_longitude v
            \<and> r_timestamp r = r_timestamp v \<and> r_address r = r_address v
            \<and> r_updated_at r = now
            \<and> distinct (map r_id (locations_table db'))
            \<and> (r_id v \<in> r_id ` set (locations_table db) \<longrightarrow>
                 length (locations_table db') = length (locations_table db)
                 \<and> (\<exists>old. filter (\<lambda>x. r_id x = r_id v) (locations_table db) = [old]
                        \<and> r_created_at r = r_created_at old))"
proof -
  from assms(1) obtain v where v: "insert_values pg now params = Some v" and re: "reachable db"
    by (auto simp: upsert_stmt_def split: if_splits option.splits)
  let ?tbl = "locations_table db"
  show ?thesis
  proof (cases "r_id v \<in> r_id ` set ?tbl")
    case True
    then obtain old where old: "old \<in> set ?tbl" "r_id old = r_id v" by auto
    let ?f = "\<lambda>old. if r_id old = r_id v then do_update v old else old"
    from assms(1) v re True have rs: "rs = filter (\<lambda>x. r_id x = r_id v) (map ?f ?tbl)"
      and db': "locations_table db' = map ?f ?tbl"
      by (auto simp: upsert_stmt_def Let_def)
    have keys: "map r_id (map ?f ?tbl) = map r_id ?tbl" by (rule conflict_keys)
    have f1: "filter (\<lambda>x. r_id x = r_id v) ?tbl = [old]"
      using filter_key_distinct [OF assms(2) old(1)] old(2) by simp
    have "filter (\<lambda>x. r_id x = r_id v) (map ?f ?tbl) = map ?f (filter (\<lambda>x. r_id x = r_id v) ?tbl)"
      by (rule conflict_filter)
    with f1 old have f2: "filter (\<lambda>x. r_id x = r_id v) (map ?f ?tbl) = [do_update v old]" by simp
    have d: "distinct (map r_id (locations_table db'))"
      unfolding db' keys by (rule assms(2))
    show ?thesis
      using v rs db' f1 f2 d True old insert_values_upd [OF v]
      by (auto simp: do_update_def)
  next
    case False
    from assms(1) v re False have rs: "rs = [v]"
      and db': "locations_table db' = ?tbl @ [v]"
      by (auto simp: upsert_stmt_def Let_def)
    from False have "\<forall>x\<in>set ?tbl. r_id x \<noteq> r_id v" by (metis imageI)
    then have "filter (\<lambda>x. r_id x = r_id v) ?tbl = []"
      by (simp add: filter_empty_conv)
    with rs db' v False assms(2) insert_values_upd [OF v] show ?thesis by auto
  qed
qed

subsection \<open>\<^verbatim>\<open>POST /api/locations\<close>\<close>

lemma create_location_201D:
  assumes "post_locations pg e now req db = (resp, db')" and "status resp = 201"
  shows "\<exists>rs. upsert_stmt pg now
           [field ''id'' (req_body req), field ''type'' (req_body req),
            field ''note'' (req_body req), field ''latitude'' (req_body req),
            field ''longitude'' (req_body req), field ''timestamp'' (req_body req),
            if truthy (field ''address'' (req_body req)) then field ''address'' (req_body req)
            else JNull] db = Inr (rs, db')
         \<and> (\<exists>r rest. rs = r # rest \<and> payload resp = Saved r)"
  using assms
  by (auto simp: post_locations_def authenticate_def create_location_def Let_def
      split: option.splits if_splits sum.splits list.splits)

text \<open>
  The record of the example, stored, and then sent again with the same id and every other
  field changed.
\<close>

lemma demo_first:
  "post_locations demo_codec development_env 5 (demo_request (kudzu 38.84 (-77.18) ''kudzu'')) empty_db
     = (\<lparr>status = 201, payload = Saved (kudzu_row ''kudzu'' 5 5)\<rparr>, kudzu_db)"
  by (simp add: post_locations_def authenticate_def development_env_def create_location_def
      kudzu_def is_number_def upsert_stmt_def insert_values_def not_null_def nullable_def
      demo_codec_def demo_request_def empty_db_def kudzu_row_def kudzu_db_def)

lemma demo_second:
  "post_locations demo_codec development_env 9 (demo_request kudzu_moved) kudzu_db
     = (\<lparr>status = 201, payload = Saved (moved_row 5 9)\<rparr>,
        \<lparr>reachable = True, locations_table = [moved_row 5 9]\<rparr>)"
  by (simp add: post_locations_def authenticate_def development_env_def create_location_def
      kudzu_moved_def is_number_def upsert_stmt_def insert_values_def not_null_def nullable_def
      demo_codec_def demo_request_def kudzu_row_def moved_row_def kudzu_db_def do_update_def
      Let_def)

text \<open>
  Claim C7. The upsert of \<^verbatim>\<open>POST /api/locations\<close> is idempotent in the key: when two
  requests carrying the same id are both answered 201, one after the other, the table (whose
  keys are unique, \<^verbatim>\<open>id\<close> being its primary key) holds exactly one row with that id
  afterwards. Every mutable column of that row holds what the second request submitted
  (\<^verbatim>\<open>type\<close>, \<^verbatim>\<open>note\<close>, \<^verbatim>\<open>latitude\<close>, \<^verbatim>\<open>longitude\<close>,
  \<^verbatim>\<open>timestamp\<close> and \<^verbatim>\<open>address\<close>, as the database reads them), its
  \<^verbatim>\<open>updated_at\<close> is the time of the second request and its \<^verbatim>\<open>created_at\<close> is
  that of the row the first request left; it is the row the second response returns, and the
  second request added no row.
\<close>

theorem upsert_same_id_overwrites:
  assumes pk: "distinct (map r_id (locations_table db))"
    and first: "post_locations pg e1 t1 req1 db = (resp1, db1)" "status resp1 = 201"
    and second: "post_locations pg e2 t2 req2 db1 = (resp2, db2)" "status resp2 = 201"
    and same: "bigint_in pg (field ''id'' (req_body req1)) = bigint_in pg (field ''id'' (req_body req2))"
  shows "\<exists>i r old. bigint_in pg (field ''id'' (req_body req2)) = Some i
           \<and> filter (\<lambda>x. r_id x = i) (locations_table db2) = [r]
           \<and> text_in pg (field ''note'' (req_body req2)) = Some (r_note r)
           \<and> r_updated_at r = t2
           \<and> payload resp2 = Saved r
           \<and> length (locations_table db2) = length (locations_table db1)
           \<and> distinct (map r_id (locations_table db2))
           \<and> text_in pg (field ''type'' (req_body req2)) = Some (r_type r)
           \<and> float8_in pg (field ''latitude'' (req_body req2)) = Some (r_latitude r)
           \<and> float8_in pg (field ''longitude'' (req_body req2)) = Some (r_longitude r)
           \<and> timestamptz_in pg (field ''timestamp'' (req_body req2)) = Some (r_timestamp r)
           \<and> nullable (text_in pg)
                 (if truthy (field ''address'' (req_body req2))
                  then field ''address'' (req_body req2) else JNull) = Some (r_address r)
           \<and> filter (\<lambda>x. r_id x = i) (locations_table db1) = [old]
           \<and> r_created_at r = r_created_at old"
proof -
  let ?params = "\<lambda>req. [field ''id'' (req_body req), field ''type'' (req_body req),
            field ''note'' (req_body req), field ''latitude'' (req_body req),
            field ''longitude'' (req_body req), field ''timestamp'' (req_body req),
            if truthy (field ''address'' (req_body req)) then field ''address'' (req_body req)
            else JNull]"
  from create_location_201D [OF first] obtain rs1 where
    u1: "upsert_stmt pg t1 (?params req1) db = Inr (rs1, db1)" by blast
  from upsert_stmt_InrD [OF u1 pk] obtain v1 r1 where
    v1: "insert_values pg t1 (?params req1) = Some v1"
    and in1: "filter (\<lambda>x. r_id x = r_id v1) (locations_table db1) = [r1]"
    and pk1: "distinct (map r_id (locations_table db1))" by blast
  from create_location_201D [OF second] obtain rs2 r rest where
    u2: "upsert_stmt pg t2 (?params req2) db1 = Inr (rs2, db2)"
    and rs2: "rs2 = r # rest" and p2: "payload resp2 = Saved r" by blast
  from upsert_stmt_InrD [OF u2 pk1] obtain v2 r2 where
    v2: "insert_values pg t2 (?params req2) = Some v2"
    and r2: "rs2 = [r2]"
    and in2: "filter (\<lambda>x. r_id x = r_id v2) (locations_table db2) = [r2]"
    and cols: "r_note r2 = r_note v2" "r_type r2 = r_type v2" "r_latitude r2 = r_latitude v2"
      "r_longitude r2 = r_longitude v2" "r_timestamp r2 = r_timestamp v2"
      "r_address r2 = r_address v2"
    and upd2: "r_updated_at r2 = t2"
    and pk2: "distinct (map r_id (locations_table db2))"
    and conflict: "r_id v2 \<in> r_id ` set (locations_table db1) \<longrightarrow>
                 length (locations_table db2) = length (locations_table db1)
                 \<and> (\<exists>old. filter (\<lambda>x. r_id x = r_id v2) (locations_table db1) = [old]
                        \<and> r_created_at r2 = r_created_at old)" by blast
  from rs2 r2 have rr: "r2 = r" by simp
  have id1: "bigint_in pg (field ''id'' (req_body req1)) = Some (r_id v1)"
    by (rule insert_values_SomeD(1) [OF v1])
  have id2: "bigint_in pg (field ''id'' (req_body req2)) = Some (r_id v2)"
    by (rule insert_values_SomeD(1) [OF v2])
  from id1 id2 same have eq: "r_id v1 = r_id v2" by simp
  from in1 have "r1 \<in> set (filter (\<lambda>x. r_id x = r_id v1) (locations_table db1))" by simp
  then have "r1 \<in> set (locations_table db1)" and "r_id r1 = r_id v1" by simp_all
  then have "r_id v1 \<in> r_id ` set (locations_table db1)" by (metis imageI)
  with eq conflict obtain old where
    l: "length (locations_table db2) = length (locations_table db1)"
    and old: "filter (\<lambda>x. r_id x = r_id v2) (locations_table db1) = [old]"
      "r_created_at r2 = r_created_at old" by auto
  note d = insert_values_SomeD [OF v2]
  show ?thesis
    apply (rule exI [of _ "r_id v2"], rule exI [of _ r], rule exI [of _ old])
    using id2 in2 d(2-6) d(10) cols upd2 p2 l pk2 old rr
    apply simp
    done
qed

theorem upsert_same_id_overwrites_witness:
  "\<exists>i r old. bigint_in demo_codec (field ''id'' (req_body (demo_request kudzu_moved))) = Some i
           \<and> filter (\<lambda>x. r_id x = i)
                 (locations_table \<lparr>reachable = True, locations_table = [moved_row 5 9]\<rparr>) = [r]
           \<and> text_in demo_codec (field ''note'' (req_body (demo_request kudzu_moved)))
                 = Some (r_note r)
           \<and> r_updated_at r = 9
           \<and> payload \<lparr>status = 201, payload = Saved (moved_row 5 9)\<rparr> = Saved r
           \<and> length (locations_table \<lparr>reachable = True, locations_table = [moved_row 5 9]\<rparr>)
               = length (locations_table kudzu_db)
           \<and> distinct (map r_id
                 (locations_table \<lparr>reachable = True, locations_table = [moved_row 5 9]\<rparr>))
           \<and> text_in demo_codec (field ''type'' (req_body (demo_request kudzu_moved)))
                 = Some (r_type r)
           \<and> float8_in demo_codec (field ''latitude'' (req_body (demo_request kudzu_moved)))
                 = Some (r_latitude r)
           \<and> float8_in demo_codec (field ''longitude'' (req_body (demo_request kudzu_moved)))
                 = Some (r_longitude r)
           \<and> timestamptz_in demo_codec (field ''timestamp'' (req_body (demo_request kudzu_moved)))
                 = Some (r_timestamp r)
           \<and> nullable (text_in demo_codec)
                 (if truthy (field ''address'' (req_body (demo_request kudzu_moved)))
                  then field ''address'' (req_body (demo_request kudzu_moved)) else JNull)
                 = Some (r_address r)
           \<and> filter (\<lambda>x. r_id x = i) (locations_table kudzu_db) = [old]
           \<and> r_created_at r = r_created_at old"
proof (rule upsert_same_id_overwrites [OF _ demo_first _ demo_second])
  show "distinct (map r_id (locations_table empty_db))" by (simp add: empty_db_def)
  show "status \<lparr>status = 201, payload = Saved (kudzu_row ''kudzu'' 5 5)\<rparr> = 201" by simp
  show "status \<lparr>status = 201, payload = Saved (moved_row 5 9)\<rparr> = 201" by simp
  show "bigint_in demo_codec (field ''id'' (req_body (demo_request (kudzu 38.84 (-77.18) ''kudzu''))))
      = bigint_in demo_codec (field ''id'' (req_body (demo_request kudzu_moved)))"
    by (simp add: demo_request_def kudzu_def kudzu_moved_def)
qed

text \<open>
  The row the two requests leave: every column but \<^verbatim>\<open>id\<close> and \<^verbatim>\<open>created_at\<close>
  differs from the row of the first request.
\<close>

lemma demo_second_row:
  "moved_row 5 9 = \<lparr>r_id = r_id (kudzu_row ''kudzu'' 5 5), r_type = ''litter'', r_note = ''bottle'',
       r_latitude = 1.5, r_longitude = 2.25, r_timestamp = ''2024-01-01T00:00:00.000Z'',
       r_address = Some ''Oak Ave'', r_created_at = r_created_at (kudzu_row ''kudzu'' 5 5),
       r_updated_at = 9\<rparr>"
  "r_type (kudzu_row ''kudzu'' 5 5) \<noteq> r_type (moved_row 5 9)"
  "r_latitude (kudzu_row ''kudzu'' 5 5) \<noteq> r_latitude (moved_row 5 9)"
  "r_longitude (kudzu_row ''kudzu'' 5 5) \<noteq> r_longitude (moved_row 5 9)"
  "r_timestamp (kudzu_row ''kudzu'' 5 5) \<noteq> r_timestamp (moved_row 5 9)"
  "r_address (kudzu_row ''kudzu'' 5 5) \<noteq> r_address (moved_row 5 9)"
  by (simp_all add: moved_row_def kudzu_row_def)

text \<open>
  What the handler does with a body whose fields are all truthy, of the right type, and
  accepted by the database.
\<close>

lemma post_locations_stores:
  assumes "authenticate e req = None"
    and "req_body req = JObj fs"
    and "truthy (field ''id'' (JObj fs))" and "truthy (field ''note'' (JObj fs))"
    and "truthy (field ''timestamp'' (JObj fs))"
    and "field ''type'' (JObj fs) = JStr ''plant'' \<or> field ''type'' (JObj fs) = JStr ''litter''"
    and "field ''latitude'' (JObj fs) = JNum la" and "la \<noteq> 0"
    and "field ''longitude'' (JObj fs) = JNum lo" and "lo \<noteq> 0"
    and "upsert_stmt pg now
           [field ''id'' (JObj fs), field ''type'' (JObj fs), field ''note'' (JObj fs),
            JNum la, JNum lo, field ''timestamp'' (JObj fs),
            if truthy (field ''address'' (JObj fs)) then field ''address'' (JObj fs) else JNull] db
         = Inr (r # rs, db')"
  shows "post_locations pg e now req db = (\<lparr>status = 201, payload = Saved r\<rparr>, db')"
  using assms
  by (auto simp: post_locations_def create_location_def is_number_def Let_def
      simp del: field.simps)

text \<open>
  Claim C3. A body whose fields are all present and valid, with latitude 0, is not
  stored: the handler's presence test \<^verbatim>\<open>!latitude\<close> is true of the number 0, and the
  request is answered 400 "Missing required fields" with the table untouched, whatever the
  database and the codec are. (With latitude 38.84 the same body is stored and answered 201:
  \<open>demo_first\<close>, an instance of \<open>post_locations_stores\<close>.)
\<close>

theorem zero_latitude_reported_missing:
  "post_locations pg development_env now (demo_request (kudzu 0 (-77.18) ''kudzu'')) db
     = (\<lparr>status = 400, payload = ErrorMsg ''Missing required fields''\<rparr>, db)"
  by (simp add: post_locations_def authenticate_def development_env_def create_location_def
      kudzu_def demo_request_def)

subsection \<open>\<^verbatim>\<open>GET /api/health\<close>\<close>

text \<open>
  Claim C9. \<^verbatim>\<open>GET /api/health\<close> does not depend on authentication: two requests for
  it that differ in the \<^verbatim>\<open>X-API-Key\<close> header, served under configurations that
  differ in \<^verbatim>\<open>API_KEY\<close> and \<^verbatim>\<open>NODE_ENV\<close>, get the same response and leave the
  same database; the response is the health handler's, and its status is never 401.
\<close>

theorem health_ignores_credentials:
  assumes "req_method r = GET" and "req_path r = ''/api/health''"
  shows "serve pg e1 now (r\<lparr>x_api_key := k1\<rparr>) db = serve pg e2 now (r\<lparr>x_api_key := k2\<rparr>) db
       \<and> serve pg e1 now (r\<lparr>x_api_key := k1\<rparr>) db = Some (health now db, db)
       \<and> status (health now db) \<noteq> 401"
  using assms by (simp add: serve_def health_def)

theorem health_ignores_credentials_witness:
  "serve demo_codec production_env 7 ((demo_request JUndefined)\<lparr>req_method := GET, req_path := ''/api/health'', x_api_key := None\<rparr>) empty_db
     = serve demo_codec development_env 7 ((demo_request JUndefined)\<lparr>req_method := GET, req_path := ''/api/health'', x_api_key := Some ''secret''\<rparr>) empty_db
   \<and> serve demo_codec production_env 7 ((demo_request JUndefined)\<lparr>req_method := GET, req_path := ''/api/health'', x_api_key := None\<rparr>) empty_db
     = Some (\<lparr>status = 200, payload = HealthOk 7\<rparr>, empty_db)"
  using health_ignores_credentials [of "(demo_request JUndefined)\<lparr>req_method := GET, req_path := ''/api/health''\<rparr>"
      demo_codec production_env 7 None empty_db development_env "Some ''secret''"]
  by (auto simp add: health_def empty_db_def demo_request_def)

text \<open>A route registered with \<^verbatim>\<open>authenticate\<close>, for comparison.\<close>

lemma protected_route_needs_key:
  "post_locations pg production_env now (demo_request b) db
     = (\<lparr>status = 401, payload = ErrorMsg ''Unauthorized''\<rparr>, db)"
  by (simp add: post_locations_def authenticate_def production_env_def demo_request_def)

subsection \<open>\<^verbatim>\<open>POST /api/import\<close>\<close>

lemma insert_values_not_nullish:
  assumes "insert_values pg now (import_params loc) = Some r"
  shows "\<not> nullish loc"
proof
  assume "nullish loc"
  then have "field ''id'' loc = JUndefined" by (cases loc) simp_all
  with assms show False
    by (simp add: import_params_def insert_values_def not_null_def)
qed

lemma import_loop_conflicts:
  assumes "reachable db"
    and "\<forall>loc\<in>set locs. \<exists>r. insert_values pg now (import_params loc) = Some r
            \<and> r_id r \<in> r_id ` set (locations_table db)"
  shows "import_loop pg now locs imported failed db = (Inr (imported + length locs, failed), db)"
  using assms(2)
proof (induction locs arbitrary: imported)
  case Nil
  show ?case by simp
next
  case (Cons loc locs)
  from Cons.prems obtain r where r: "insert_values pg now (import_params loc) = Some r"
    and k: "r_id r \<in> r_id ` set (locations_table db)" by auto
  from r have nn: "\<not> nullish loc" by (rule insert_values_not_nullish)
  from r k assms(1) have st: "insert_ignore_stmt pg now (import_params loc) db = Inr db"
    by (simp add: insert_ignore_stmt_def)
  from Cons.prems have "\<forall>loc\<in>set locs. \<exists>r. insert_values pg now (import_params loc) = Some r
            \<and> r_id r \<in> r_id ` set (locations_table db)" by simp
  from Cons.IH [OF this, of "imported + 1"] nn st show ?case by simp
qed

lemma import_loop_total:
  "import_loop pg now locs imported failed db = (Inr (imported', failed'), db')
     \<Longrightarrow> imported' + failed' = imported + failed + length locs"
proof (induction locs arbitrary: imported failed db)
  case Nil
  then show ?case by simp
next
  case (Cons loc locs)
  show ?case
  proof (cases "insert_ignore_stmt pg now (import_params loc) db")
    case (Inl err)
    with Cons.prems have "import_loop pg now locs imported (failed + 1) db
                            = (Inr (imported', failed'), db')"
      by (simp split: if_splits)
    from Cons.IH [OF this] show ?thesis by simp
  next
    case (Inr db1)
    with Cons.prems have "import_loop pg now locs (imported + 1) failed db1
                            = (Inr (imported', failed'), db')"
      by (simp split: if_splits)
    from Cons.IH [OF this] show ?thesis by simp
  qed
qed

text \<open>
  Claim C10, as amended. \<^verbatim>\<open>POST /api/import\<close> counts a row skipped on conflict as
  imported: for an authorised request, a reachable database and a batch each of whose
  locations is a row the statement accepts (its values fit the columns, none of the
  \<^verbatim>\<open>NOT NULL\<close> columns is missing, its type is plant or litter) with an id that is
  already in the table, the response reports imported = total, failed = 0, and the database
  is unchanged (no row inserted, no row modified).
\<close>

theorem import_counts_skipped_rows:
  assumes "authenticate e req = None" and "reachable db"
    and "field ''locations'' (req_body req) = JArr locs ps"
    and "\<forall>loc\<in>set locs. \<exists>r. insert_values pg now (import_params loc) = Some r
            \<and> r_id r \<in> r_id ` set (locations_table db)"
  shows "post_import pg e now req db
           = (\<lparr>status = 200, payload = ImportReport (length locs) 0 (length locs)\<rparr>, db)"
proof -
  from assms(3) have nn: "\<not> nullish (req_body req)" by (cases "req_body req") simp_all
  from import_loop_conflicts [OF assms(2) assms(4), of 0 0]
  have "import_loop pg now locs 0 0 db = (Inr (length locs, 0), db)" by simp
  with assms(1) assms(3) nn show ?thesis
    by (simp add: post_import_def import_locations_def)
qed

lemma kudzu_export_values:
  "insert_values demo_codec 9 (import_params (kudzu_export n)) = Some (kudzu_row n 9 9)"
  by (simp add: import_params_def kudzu_export_def insert_values_def not_null_def nullable_def
      demo_codec_def kudzu_row_def)

theorem import_counts_skipped_rows_witness:
  "post_import demo_codec development_env 9
      (import_request [kudzu_export ''other note'', kudzu_export ''again'']) kudzu_db
    = (\<lparr>status = 200, payload = ImportReport 2 0 2\<rparr>, kudzu_db)"
  using import_counts_skipped_rows [of development_env
      "import_request [kudzu_export ''other note'', kudzu_export ''again'']" kudzu_db
      "[kudzu_export ''other note'', kudzu_export ''again'']" "[]" demo_codec 9]
  by (simp add: kudzu_export_values authenticate_def development_env_def import_request_def
      kudzu_db_def)
     (simp add: kudzu_row_def)

text \<open>
  The claim C10 as first stated fails for a location that has the id of a stored row and
  nothing else: the \<^verbatim>\<open>INSERT\<close> is rejected for its missing \<^verbatim>\<open>NOT NULL\<close> columns
  before any conflict is looked at, and the location is counted as failed.
\<close>

theorem import_rejected_row_counterexample:
  "r_id (kudzu_row ''kudzu'' 5 5) = 1700000000000
   \<and> locations_table kudzu_db = [kudzu_row ''kudzu'' 5 5]
   \<and> post_import demo_codec development_env 9
        (import_request [JObj [(''id'', JNum 1700000000000)]]) kudzu_db
      = (\<lparr>status = 200, payload = ImportReport 0 1 1\<rparr>, kudzu_db)"
  by (simp add: post_import_def authenticate_def development_env_def import_request_def
      import_locations_def import_params_def insert_ignore_stmt_def insert_values_def
      not_null_def demo_codec_def kudzu_db_def kudzu_row_def)

section \<open>Properties of the browser application\<close>

subsection \<open>Fields kept by the page functions\<close>

lemma map_of_upd_assoc_same [simp]: "map_of (upd_assoc k v ps) k = Some v"
  by (induction ps) auto

lemma map_of_upd_assoc_other [simp]: "k' \<noteq> k \<Longrightarrow> map_of (upd_assoc k v ps) k' = map_of ps k'"
  by (induction ps) auto

lemma sync_failed_obj:
  "sync_failed (JObj fs) m s =
     (None, app_log (Txt ''Sync failed: '' # m @ [Txt '' (will retry)'']) ''warning''
             (updateSyncIndicator ''offline'' (s\<lparr>pendingSync := pendingSync s @ [field ''id'' (JObj fs)]\<rparr>)))"
  by (simp add: sync_failed_def)

lemma app_log_fields [simp]:
  "locations (app_log m ty s) = locations s" "localStorage (app_log m ty s) = localStorage s"
  "syncIndicator (app_log m ty s) = syncIndicator s" "sent (app_log m ty s) = sent s"
  "offlineMode (app_log m ty s) = offlineMode s" "isSyncing (app_log m ty s) = isSyncing s"
  "pendingSync (app_log m ty s) = pendingSync s" "toasts (app_log m ty s) = toasts s"
  "currentFilter (app_log m ty s) = currentFilter s" "lastSync (app_log m ty s) = lastSync s"
  "serverUrl (app_log m ty s) = serverUrl s" "apiKey (app_log m ty s) = apiKey s"
  "console_error (app_log m ty s) = console_error s"
  by (simp_all add: app_log_def Let_def)

lemma updateSyncIndicator_fields [simp]:
  "locations (updateSyncIndicator st s) = locations s" "localStorage (updateSyncIndicator st s) = localStorage s"
  "sent (updateSyncIndicator st s) = sent s"
  "offlineMode (updateSyncIndicator st s) = offlineMode s" "isSyncing (updateSyncIndicator st s) = isSyncing s"
  "pendingSync (updateSyncIndicator st s) = pendingSync s" "toasts (updateSyncIndicator st s) = toasts s"
  "currentFilter (updateSyncIndicator st s) = currentFilter s" "lastSync (updateSyncIndicator st s) = lastSync s"
  "serverUrl (updateSyncIndicator st s) = serverUrl s" "apiKey (updateSyncIndicator st s) = apiKey s"
  "debugLog (updateSyncIndicator st s) = debugLog s" "console_error (updateSyncIndicator st s) = console_error s"
  "syncIndicator (updateSyncIndicator ''online'' s) = ''online''"
  "syncIndicator (updateSyncIndicator ''offline'' s) = ''offline''"
  "syncIndicator (updateSyncIndicator ''syncing'' s) = ''syncing''"
  by (simp_all add: updateSyncIndicator_def)

lemma showToast_fields [simp]:
  "locations (showToast m ty s) = locations s" "localStorage (showToast m ty s) = localStorage s"
  "syncIndicator (showToast m ty s) = syncIndicator s" "sent (showToast m ty s) = sent s"
  "offlineMode (showToast m ty s) = offlineMode s" "isSyncing (showToast m ty s) = isSyncing s"
  "pendingSync (showToast m ty s) = pendingSync s"
  "currentFilter (showToast m ty s) = currentFilter s" "lastSync (showToast m ty s) = lastSync s"
  "serverUrl (showToast m ty s) = serverUrl s" "apiKey (showToast m ty s) = apiKey s"
  "debugLog (showToast m ty s) = debugLog s" "console_error (showToast m ty s) = console_error s"
  by (simp_all add: showToast_def)

lemma saveToLocalStorage_fields [simp]:
  "locations (saveToLocalStorage br s) = locations s"
  "localStorage (saveToLocalStorage br s) ''tracker_locations'' = Some (JSON_stringify br (locations s))"
  "syncIndicator (saveToLocalStorage br s) = syncIndicator s" "sent (saveToLocalStorage br s) = sent s"
  "offlineMode (saveToLocalStorage br s) = offlineMode s" "isSyncing (saveToLocalStorage br s) = isSyncing s"
  "pendingSync (saveToLocalStorage br s) = pendingSync s" "toasts (saveToLocalStorage br s) = toasts s"
  "currentFilter (saveToLocalStorage br s) = currentFilter s" "lastSync (saveToLocalStorage br s) = lastSync s"
  "serverUrl (saveToLocalStorage br s) = serverUrl s" "apiKey (saveToLocalStorage br s) = apiKey s"
  "debugLog (saveToLocalStorage br s) = debugLog s" "console_error (saveToLocalStorage br s) = console_error s"
  by (simp_all add: saveToLocalStorage_def)


subsection \<open>\<^verbatim>\<open>checkConnection\<close>\<close>

lemma checkConnection_returns:
  "fst (checkConnection br s) = (case fetch_reply br (length (sent s)) of Rejected \<Rightarrow> False | Responded st \<Rightarrow> response_ok st)"
  by (simp add: checkConnection_def Let_def split: fetch_result.splits)

lemma checkConnection_keeps_records:
  "locations (snd (checkConnection br s)) = locations s"
  by (simp add: checkConnection_def Let_def app_log_def updateSyncIndicator_def split: fetch_result.splits)

lemma checkConnection_online:
  "fetch_reply br (length (sent s)) = Responded st \<Longrightarrow> response_ok st \<Longrightarrow>
     \<not> offlineMode (snd (checkConnection br s)) \<and> syncIndicator (snd (checkConnection br s)) = ''online''"
  by (simp add: checkConnection_def Let_def app_log_def updateSyncIndicator_def)

lemma checkConnection_rejected:
  "fetch_reply br (length (sent s)) = Rejected \<Longrightarrow>
     offlineMode (snd (checkConnection br s)) \<and> syncIndicator (snd (checkConnection br s)) = ''offline''"
  by (simp add: checkConnection_def Let_def app_log_def updateSyncIndicator_def)

text \<open>
  Claim C5. \<^verbatim>\<open>checkConnection\<close> changes no record and returns true exactly when the
  probe is answered with an \<^verbatim>\<open>ok\<close> status (the four lemmas above, which also give
  the state after an \<^verbatim>\<open>ok\<close> response and after a rejected call). After a response that
  is not \<^verbatim>\<open>ok\<close>, however, the function returns false and has recorded the call only:
  the offline-mode flag and the indicator are what they were, so a client shown as online
  stays online.
\<close>

theorem checkConnection_error_response_unnoticed:
  assumes "fetch_reply br (length (sent s)) = Responded st" and "\<not> response_ok st"
  shows "checkConnection br s = (False, s\<lparr>sent := sent s @ [GetHealth (serverUrl s) (apiKey s)]\<rparr>)"
  using assms by (simp add: checkConnection_def Let_def)

theorem checkConnection_error_response_unnoticed_witness:
  "checkConnection (demo_browser (\<lambda>k. Responded 503)) (initial_app\<lparr>syncIndicator := ''online''\<rparr>)
     = (False, initial_app\<lparr>syncIndicator := ''online'',
                          sent := [GetHealth ''http://localhost:3000'' []]\<rparr>)
   \<and> \<not> offlineMode (snd (checkConnection (demo_browser (\<lambda>k. Responded 503)) (initial_app\<lparr>syncIndicator := ''online''\<rparr>)))
   \<and> syncIndicator (snd (checkConnection (demo_browser (\<lambda>k. Responded 503)) (initial_app\<lparr>syncIndicator := ''online''\<rparr>))) = ''online''"
  using checkConnection_error_response_unnoticed
          [of "demo_browser (\<lambda>k. Responded 503)" "initial_app\<lparr>syncIndicator := ''online''\<rparr>" 503]
  by (simp add: demo_browser_def initial_app_def response_ok_def)


subsection \<open>\<^verbatim>\<open>loadStoredLocations\<close>\<close>

lemma loadStoredLocations_absent:
  "localStorage s ''tracker_locations'' = None \<or> localStorage s ''tracker_locations'' = Some [] \<Longrightarrow> loadStoredLocations br s = s"
  by (auto simp: loadStoredLocations_def)

lemma loadStoredLocations_malformed:
  "localStorage s ''tracker_locations'' = Some blob \<Longrightarrow> JSON_parse br blob = None \<Longrightarrow>
     locations (loadStoredLocations br s) = locations s \<and> (blob \<noteq> [] \<longrightarrow> console_error (loadStoredLocations br s) = console_error s @ [[Txt ''Failed to load from localStorage:'']])"
  by (auto simp: loadStoredLocations_def load_failed_def)

text \<open>
  Claim C8. \<^verbatim>\<open>loadStoredLocations\<close> always returns, and leaves the store alone when
  nothing is persisted or the text does not parse (the two lemmas above). When the text
  parses, the parsed value becomes \<^verbatim>\<open>app.locations\<close> whatever it is: an object, a
  number, \<^verbatim>\<open>null\<close>, or an array holding \<^verbatim>\<open>null\<close> are adopted, not replaced by
  the empty array.
\<close>

theorem loadStoredLocations_adopts_any_value:
  assumes "localStorage s ''tracker_locations'' = Some blob" and "blob \<noteq> []"
    and "JSON_parse br blob = Some v"
  shows "locations (loadStoredLocations br s) = v"
  using assms
  by (simp add: loadStoredLocations_def load_failed_def app_log_def Let_def split: option.splits)

theorem loadStoredLocations_adopts_any_value_witness:
  "locations (loadStoredLocations (demo_browser (\<lambda>k. Rejected))
                (initial_app\<lparr>localStorage := [''tracker_locations'' \<mapsto> ''{}'']\<rparr>)) = JObj []
   \<and> loadStoredLocations (demo_browser (\<lambda>k. Rejected))
                (initial_app\<lparr>localStorage := [''tracker_locations'' \<mapsto> ''{}'']\<rparr>)
       = initial_app\<lparr>localStorage := [''tracker_locations'' \<mapsto> ''{}''], locations := JObj [],
                      console_error := [[Txt ''Failed to load from localStorage:'']]\<rparr>"
  using loadStoredLocations_adopts_any_value
          [of "initial_app\<lparr>localStorage := [''tracker_locations'' \<mapsto> ''{}'']\<rparr>" "''{}''"
              "demo_browser (\<lambda>k. Rejected)" "JObj []"]
  by (simp add: demo_browser_def initial_app_def loadStoredLocations_def load_failed_def forEach_addMarker_def)

subsection \<open>\<^verbatim>\<open>syncLocationToServer\<close>\<close>

text \<open>The concrete store of the runs below: three records, the first and the third pending.\<close>

lemma pending_app_store:
  "locations pending_app = JArr [observation 1 ''kudzu'' False, observation 2 ''ivy'' True,
                                 observation 3 ''can'' False] []"
  "\<not> isSyncing pending_app" "\<not> offlineMode pending_app" "sent pending_app = []"
  "serverUrl pending_app = ''http://localhost:3000''" "apiKey pending_app = []"
  by (simp_all add: pending_app_def initial_app_def)

lemma pending_app_records:
  "list_all location_record [observation 1 ''kudzu'' False, observation 2 ''ivy'' True,
                             observation 3 ''can'' False]"
  "distinct (map (field ''id'') [observation 1 ''kudzu'' False, observation 2 ''ivy'' True,
                             observation 3 ''can'' False])"
  by (simp_all add: observation_def is_number_def item_throws_def)

lemma pending_app_pending:
  "pending [observation 1 ''kudzu'' False, observation 2 ''ivy'' True,
            observation 3 ''can'' False] = [0, 2]"
  by (simp add: pending_def observation_def upt_rec)

lemma upsert_ok_demo:
  "upsert_ok (demo_browser replies) k
     = (case replies k of Rejected \<Rightarrow> False | Responded st \<Rightarrow> 200 \<le> st \<and> st \<le> 299)"
  by (simp add: upsert_ok_def demo_browser_def response_ok_def split: fetch_result.splits)


text \<open>
  Claim C6. \<^verbatim>\<open>syncLocationToServer\<close> on a record of the store, when the client is
  not in offline mode (so that the upsert is sent): no error leaves the function and exactly
  one upsert of the record is sent; after an \<^verbatim>\<open>ok\<close> response the record's
  \<^verbatim>\<open>synced\<close> is true, nothing else in the store has changed, and the store is
  persisted; after a rejected call or a response that is not \<^verbatim>\<open>ok\<close> the store is
  unchanged (the flag stays as it was, so the record is still selected by the next sweep,
  which the offline-mode flag, still not set, does not hold back), the indicator is offline
  and the id is queued in \<^verbatim>\<open>pendingSync\<close>.
\<close>

theorem syncLocationToServer_outcomes:
  assumes "locations s = JArr xs ps" and "i < length xs" and "xs ! i = JObj fs"
    and "\<not> offlineMode s"
  shows "fst (syncLocationToServer br i s) = None
       \<and> sent (snd (syncLocationToServer br i s))
           = sent s @ [PostLocation (serverUrl s) (apiKey s)
(request_body (xs ! i))]
       \<and> (\<forall>st. fetch_reply br (length (sent s)) = Responded st \<and> response_ok st \<longrightarrow>
             locations (snd (syncLocationToServer br i s))
               = JArr (xs[i := JObj (upd_assoc ''synced'' (JBool True) fs)]) ps
             \<and> field ''synced'' (element i (locations (snd (syncLocationToServer br i s)))) = JBool True
             \<and> localStorage (snd (syncLocationToServer br i s)) ''tracker_locations''
                 = Some (JSON_stringify br (locations (snd (syncLocationToServer br i s)))))
       \<and> (fetch_reply br (length (sent s)) = Rejected
           \<or> (\<exists>st. fetch_reply br (length (sent s)) = Responded st \<and> \<not> response_ok st) \<longrightarrow>
             locations (snd (syncLocationToServer br i s)) = locations s
             \<and> field ''synced'' (element i (locations (snd (syncLocationToServer br i s))))
                 = field ''synced'' (xs ! i)
             \<and> syncIndicator (snd (syncLocationToServer br i s)) = ''offline''
             \<and> \<not> offlineMode (snd (syncLocationToServer br i s))
             \<and> pendingSync (snd (syncLocationToServer br i s)) = pendingSync s @ [field ''id'' (xs ! i)])"
proof (cases "fetch_reply br (length (sent s))")
  case Rejected
  with assms show ?thesis
    by (simp add: syncLocationToServer_def element_def upsert_body_def sync_failed_obj Let_def)
next
  case (Responded st)
  show ?thesis
  proof (cases "response_ok st")
    case False
    with Responded assms show ?thesis
      by (simp add: syncLocationToServer_def element_def upsert_body_def sync_failed_obj Let_def)
  next
    case True
    with Responded assms show ?thesis
      by (simp add: syncLocationToServer_def element_def upsert_body_def sync_failed_obj Let_def
          assign_synced_def split: option.splits)
  qed
qed

theorem syncLocationToServer_outcomes_witness:
  "fst (syncLocationToServer (demo_browser (\<lambda>k. Responded 201)) 0 pending_app) = None
   \<and> locations (snd (syncLocationToServer (demo_browser (\<lambda>k. Responded 201)) 0 pending_app))
       = JArr [observation 1 ''kudzu'' True, observation 2 ''ivy'' True,
               observation 3 ''can'' False] []
   \<and> fst (syncLocationToServer (demo_browser (\<lambda>k. Responded 500)) 0 pending_app) = None
   \<and> locations (snd (syncLocationToServer (demo_browser (\<lambda>k. Responded 500)) 0 pending_app))
       = locations pending_app
   \<and> syncIndicator (snd (syncLocationToServer (demo_browser (\<lambda>k. Responded 500)) 0 pending_app))
       = ''offline''"
proof -
  have i: "(0::nat) < length [observation 1 ''kudzu'' False, observation 2 ''ivy'' True,
                              observation 3 ''can'' False]" by simp
  have o: "[observation 1 ''kudzu'' False, observation 2 ''ivy'' True,
            observation 3 ''can'' False] ! 0
           = JObj [(''id'', JNum 1), (''type'', JStr ''plant''), (''note'', JStr ''kudzu''),
                   (''lat'', JNum 38.84), (''lng'', JNum (-77.18)),
                   (''timestamp'', JStr ''2023-11-14T22:13:20.000Z''),
                   (''address'', JStr ''Main St''), (''synced'', JBool False)]"
    by (simp add: observation_def)
  note good = syncLocationToServer_outcomes
                [OF pending_app_store(1) i o pending_app_store(3),
                 of "demo_browser (\<lambda>k. Responded 201)"]
  note bad = syncLocationToServer_outcomes
                [OF pending_app_store(1) i o pending_app_store(3),
                 of "demo_browser (\<lambda>k. Responded 500)"]
  have r1: "fetch_reply (demo_browser (\<lambda>k. Responded 201)) (length (sent pending_app)) = Responded 201"
    "response_ok 201" by (simp_all add: demo_browser_def response_ok_def)
  have r2: "fetch_reply (demo_browser (\<lambda>k. Responded 500)) (length (sent pending_app)) = Responded 500"
    "\<not> response_ok 500" by (simp_all add: demo_browser_def response_ok_def)
  from good r1 have
    "locations (snd (syncLocationToServer (demo_browser (\<lambda>k. Responded 201)) 0 pending_app))
       = JArr [observation 1 ''kudzu'' True, observation 2 ''ivy'' True,
               observation 3 ''can'' False] []"
    by (simp add: observation_def)
  moreover from bad r2 have
    "locations (snd (syncLocationToServer (demo_browser (\<lambda>k. Responded 500)) 0 pending_app))
       = locations pending_app
     \<and> syncIndicator (snd (syncLocationToServer (demo_browser (\<lambda>k. Responded 500)) 0 pending_app))
       = ''offline''"
    by simp
  ultimately show ?thesis using good bad by simp
qed


text \<open>In offline mode the record is only queued: no call, no change of the store.\<close>

lemma syncLocationToServer_offline:
  assumes "locations s = JArr xs ps" and "i < length xs" and "xs ! i = JObj fs"
    and "offlineMode s"
  shows "fst (syncLocationToServer br i s) = None"
    and "sent (snd (syncLocationToServer br i s)) = sent s"
    and "locations (snd (syncLocationToServer br i s)) = locations s"
    and "pendingSync (snd (syncLocationToServer br i s)) = pendingSync s @ [field ''id'' (xs ! i)]"
  using assms by (simp_all add: syncLocationToServer_def element_def Let_def)

subsection \<open>\<^verbatim>\<open>deleteLocation\<close>\<close>

lemma location_record_not_nullish: "location_record x \<Longrightarrow> \<not> nullish x"
  by (cases x) simp_all

lemma location_record_id: "location_record x \<Longrightarrow> \<exists>n. field ''id'' x = JNum n"
  by (cases x; cases "field ''id'' x") (simp_all add: is_number_def)

lemma location_record_shown: "location_record x \<Longrightarrow> \<not> item_throws x"
  by (cases x) simp_all

lemma strict_eq_ids:
  assumes "location_record x" and "location_record y"
  shows "strict_eq (field ''id'' x) (field ''id'' y) = (field ''id'' x = field ''id'' y)"
proof -
  from location_record_id [OF assms(1)] obtain n where "field ''id'' x = JNum n" by blast
  then show ?thesis by simp
qed

text \<open>The list of a store of location records can be written, whatever the filter.\<close>

lemma updateLocationList_records:
  assumes "case locations s of JArr xs ps \<Rightarrow> list_all location_record xs | _ \<Rightarrow> False"
  shows "updateLocationList s = None"
proof (cases "locations s")
  case (JArr xs ps)
  with assms have recs: "list_all location_record xs" by simp
  then have nn: "\<not> list_ex nullish xs"
    by (auto simp: list_all_iff list_ex_iff location_record_not_nullish)
  from recs have "\<And>P. \<not> list_ex item_throws (filter P xs)"
    by (auto simp: list_all_iff list_ex_iff location_record_shown)
  moreover from recs have "\<not> list_ex item_throws xs"
    by (auto simp: list_all_iff list_ex_iff location_record_shown)
  ultimately show ?thesis using JArr nn by (simp add: updateLocationList_def Let_def)
qed (use assms in simp_all)

lemma find_id_record:
  assumes "list_all location_record xs" and "distinct (map (field ''id'') xs)" and "x \<in> set xs"
  shows "find_id (field ''id'' x) xs = Inr x"
  using assms
proof (induction xs)
  case Nil
  then show ?case by simp
next
  case (Cons a xs)
  from Cons.prems have a: "location_record a" and x: "location_record x"
    by (auto simp: list_all_iff)
  show ?case
  proof (cases "a = x")
    case True
    with a show ?thesis by (simp add: location_record_not_nullish strict_eq_ids)
  next
    case False
    with Cons.prems have xin: "x \<in> set xs" by simp
    with Cons.prems have "field ''id'' a \<noteq> field ''id'' x" by force
    with a x xin Cons show ?thesis by (simp add: location_record_not_nullish strict_eq_ids)
  qed
qed

lemma no_nullish_records: "list_all location_record xs \<Longrightarrow> \<not> list_ex nullish xs"
  by (auto simp: list_all_iff list_ex_iff location_record_not_nullish)

lemma without_id_record:
  assumes "list_all location_record xs" and "distinct (map (field ''id'') xs)" and "x \<in> set xs"
  shows "without_id (field ''id'' x) xs = Inr (filter (\<lambda>l. l \<noteq> x) xs)"
proof -
  have x: "location_record x" using assms by (auto simp: list_all_iff)
  have "filter (\<lambda>l. \<not> strict_eq (field ''id'' l) (field ''id'' x)) xs = filter (\<lambda>l. l \<noteq> x) xs"
  proof (rule filter_cong [OF refl])
    fix l assume l: "l \<in> set xs"
    then have "location_record l" using assms by (auto simp: list_all_iff)
    then have "strict_eq (field ''id'' l) (field ''id'' x) = (field ''id'' l = field ''id'' x)"
      using x by (rule strict_eq_ids)
    moreover have "(field ''id'' l = field ''id'' x) = (l = x)"
      using assms(2,3) l by (auto simp: distinct_map inj_on_def)
    ultimately show "(\<not> strict_eq (field ''id'' l) (field ''id'' x)) = (l \<noteq> x)" by simp
  qed
  with assms(1) show ?thesis by (simp add: without_id_def no_nullish_records)
qed

lemma filter_records: "list_all location_record xs \<Longrightarrow> list_all location_record (filter P xs)"
  by (auto simp: list_all_iff)

text \<open>
  \<^verbatim>\<open>deleteFromServer\<close> makes its call unless the client is in offline mode (or the id
  cannot be written into the URL).
\<close>

lemma deleteFromServer_calls:
  "sent (deleteFromServer br i s)
     = sent s @ (if offlineMode s \<or> str_throws i then []
                 else [DeleteLocation (serverUrl s) (apiKey s) i])"
  by (simp add: deleteFromServer_def deleteFromServer_call_def deleteFromServer_settled_def
      split: fetch_result.splits)

text \<open>
  Claim C4, as amended. In a store of location records (objects with a number as id whose
  shown fields convert to strings) with unique ids, deleting a record
  (the user confirming) removes it from the store and persists the store; it sends exactly
  one \<^verbatim>\<open>DELETE\<close> when the record was synced and the client is not in offline mode, and
  no call at all otherwise, that is for a record never synced and for any record while the
  offline-mode flag is set. The call is made once whatever its outcome, and a rejected call
  is logged as an error.
\<close>

theorem deleteLocation_remote_calls:
  assumes "locations s = JArr xs []" and "list_all location_record xs"
    and "distinct (map (field ''id'') xs)" and "x \<in> set xs"
  shows "fst (deleteLocation br True (field ''id'' x) s) = None
       \<and> locations (snd (deleteLocation br True (field ''id'' x) s)) = JArr (filter (\<lambda>l. l \<noteq> x) xs) []
       \<and> localStorage (snd (deleteLocation br True (field ''id'' x) s)) ''tracker_locations''
           = Some (JSON_stringify br (JArr (filter (\<lambda>l. l \<noteq> x) xs) []))
       \<and> sent (snd (deleteLocation br True (field ''id'' x) s))
           = sent s @ (if truthy (field ''synced'' x) \<and> \<not> offlineMode s
                       then [DeleteLocation (serverUrl s) (apiKey s) (field ''id'' x)] else [])
       \<and> (truthy (field ''synced'' x) \<and> \<not> offlineMode s
            \<and> fetch_reply br (length (sent s)) = Rejected \<longrightarrow>
          last (debugLog (snd (deleteLocation br True (field ''id'' x) s)))
            = ([Txt ''Delete from server failed: '', Txt ''fetch rejected''], ''error''))"
proof -
  have x: "location_record x" using assms by (auto simp: list_all_iff)
  then have tx: "truthy x" by (cases x) simp_all
  from location_record_id [OF x] have idx: "\<not> str_throws (field ''id'' x)" by auto
  have rest: "list_all location_record (filter (\<lambda>l. l \<noteq> x) xs)"
    by (rule filter_records [OF assms(2)])
  have nn: "\<not> list_ex nullish (filter (\<lambda>l. l \<noteq> x) xs)"
    by (rule no_nullish_records [OF rest])
  have shown: "updateLocationList
                 (saveToLocalStorage br (s\<lparr>locations := JArr (filter (\<lambda>l. l \<noteq> x) xs) []\<rparr>)) = None"
    by (rule updateLocationList_records) (simp add: rest)
  show ?thesis
    using assms(1) tx nn idx shown
    by (simp add: deleteLocation_def find_id_record [OF assms(2-4)]
        without_id_record [OF assms(2-4)] Let_def deleteFromServer_call_def
        deleteFromServer_settled_def)
       (simp add: app_log_def showToast_def Let_def split: fetch_result.splits)
qed

theorem deleteLocation_remote_calls_witness:
  "locations (snd (deleteLocation (demo_browser (\<lambda>k. Rejected)) True (JNum 2) pending_app))
     = JArr [observation 1 ''kudzu'' False, observation 3 ''can'' False] []
   \<and> sent (snd (deleteLocation (demo_browser (\<lambda>k. Rejected)) True (JNum 2) pending_app))
     = [DeleteLocation ''http://localhost:3000'' [] (JNum 2)]
   \<and> last (debugLog (snd (deleteLocation (demo_browser (\<lambda>k. Rejected)) True (JNum 2) pending_app)))
     = ([Txt ''Delete from server failed: '', Txt ''fetch rejected''], ''error'')"
proof -
  have x: "observation 2 ''ivy'' True \<in> set [observation 1 ''kudzu'' False,
             observation 2 ''ivy'' True, observation 3 ''can'' False]" by simp
  note t = deleteLocation_remote_calls
             [OF pending_app_store(1) pending_app_records x, of "demo_browser (\<lambda>k. Rejected)"]
  have f: "field ''id'' (observation 2 ''ivy'' True) = JNum 2"
    "truthy (field ''synced'' (observation 2 ''ivy'' True))"
    "fetch_reply (demo_browser (\<lambda>k. Rejected)) (length (sent pending_app)) = Rejected"
    by (simp_all add: observation_def demo_browser_def)
  have g: "filter (\<lambda>l. l \<noteq> observation 2 ''ivy'' True)
             [observation 1 ''kudzu'' False, observation 2 ''ivy'' True, observation 3 ''can'' False]
           = [observation 1 ''kudzu'' False, observation 3 ''can'' False]"
    by (simp add: observation_def)
  from t show ?thesis
    unfolding f g using f(2,3) pending_app_store(3-6) by simp
qed


text \<open>
  The claim C4 as first stated fails in offline mode: \<^verbatim>\<open>deleteFromServer\<close> starts with
  \<^verbatim>\<open>if (this.config.offlineMode) return\<close>, so a synced record is removed with no call.
\<close>

theorem deleteLocation_offline_counterexample:
  "truthy (field ''synced'' (observation 1700000000000 ''kudzu'' True))
   \<and> locations (synced_app True) = JArr [observation 1700000000000 ''kudzu'' True] []
   \<and> locations (snd (deleteLocation (demo_browser (\<lambda>k. Responded 200)) True (JNum 1700000000000) (synced_app True)))
       = JArr [] []
   \<and> sent (snd (deleteLocation (demo_browser (\<lambda>k. Responded 200)) True (JNum 1700000000000) (synced_app True))) = []"
  by (simp add: synced_app_def initial_app_def observation_def deleteLocation_def without_id_def
      deleteFromServer_call_def saveToLocalStorage_def showToast_def app_log_def Let_def
      updateLocationList_def)

text \<open>
  Outside a store of location records the list may fail to be written: with a record whose
  note cannot be shown, \<^verbatim>\<open>updateLocationList\<close> throws before
  \<^verbatim>\<open>deleteFromServer\<close> is reached, and the synced record is removed with no call.
\<close>

lemma deleteLocation_unshown_record:
  "truthy (field ''synced'' (observation 1 ''kudzu'' True))
   \<and> \<not> offlineMode unshown_app
   \<and> fst (deleteLocation (demo_browser (\<lambda>k. Responded 200)) True (JNum 1) unshown_app)
       = Some TypeError
   \<and> sent (snd (deleteLocation (demo_browser (\<lambda>k. Responded 200)) True (JNum 1) unshown_app)) = []"
  by (simp add: unshown_app_def initial_app_def observation_def deleteLocation_def without_id_def
      updateLocationList_def item_throws_def Let_def)

subsection \<open>The loop of \<^verbatim>\<open>syncNow\<close>\<close>

lemma sync_one_record:
  assumes "locations s = JArr xs ps" and "i < length xs" and "location_record (xs ! i)"
  shows "sync_one br i (s, sc, fc) =
     (if upsert_ok br (length (sent s))
      then (s\<lparr>sent := sent s @ [PostLocation (serverUrl s) (apiKey s) (request_body (xs ! i))],
               locations := JArr (xs[i := mark (xs ! i)]) ps\<rparr>, sc + 1, fc)
      else (s\<lparr>sent := sent s @ [PostLocation (serverUrl s) (apiKey s) (request_body (xs ! i))]\<rparr>,
            sc, fc + 1))"
proof -
  from assms(3) obtain fs where fs: "xs ! i = JObj fs" by (cases "xs ! i") simp_all
  show ?thesis
    using assms(1,2) fs
    by (simp add: sync_one_def element_def upsert_body_def upsert_ok_def assign_synced_def
        mark_def Let_def split: fetch_result.splits)
qed

lemma mark_record: "location_record x \<Longrightarrow> location_record (mark x)"
  by (cases x) (simp_all add: mark_def item_throws_def)

lemma mark_synced: "location_record x \<Longrightarrow> truthy (field ''synced'' (mark x))"
  by (cases x) (simp_all add: mark_def)

lemma records_update:
  "list_all location_record xs \<Longrightarrow> location_record x \<Longrightarrow> list_all location_record (xs[i := x])"
  by (auto simp: list_all_iff dest!: set_update_subset_insert [THEN subsetD])

text \<open>What the loop leaves behind, for references \<open>is\<close> into a store of records.\<close>

lemma sync_each_records:
  assumes "locations s = JArr xs ps" and "list_all location_record xs"
    and "\<forall>i\<in>set is. i < length xs" and "distinct is"
  shows "\<exists>xs' calls.
           sync_each br is (s, sc, fc)
             = (s\<lparr>sent := sent s @ calls, locations := JArr xs' ps\<rparr>,
                sc + length (filter (\<lambda>k. upsert_ok br (length (sent s) + k)) [0..<length is]),
                fc + length (filter (\<lambda>k. \<not> upsert_ok br (length (sent s) + k)) [0..<length is]))
         \<and> length calls = length is
         \<and> length xs' = length xs \<and> list_all location_record xs'
         \<and> (\<forall>k<length is. xs' ! (is ! k)
               = (if upsert_ok br (length (sent s) + k) then mark (xs ! (is ! k)) else xs ! (is ! k)))
         \<and> (\<forall>j. j \<notin> set is \<longrightarrow> xs' ! j = xs ! j)"
  using assms
proof (induction "is" arbitrary: s xs sc fc)
  case Nil
  show ?case
    by (rule exI [of _ xs], rule exI [of _ "[]"]) (use Nil in simp)
next
  case (Cons i "is")
  let ?n = "length (sent s)"
  let ?call = "PostLocation (serverUrl s) (apiKey s) (request_body (xs ! i))"
  from Cons.prems have i: "i < length xs" and rec_i: "location_record (xs ! i)"
    by (auto simp: list_all_length)
  let ?xs1 = "if upsert_ok br ?n then xs[i := mark (xs ! i)] else xs"
  let ?s1 = "s\<lparr>sent := sent s @ [?call], locations := JArr ?xs1 ps\<rparr>"
  let ?sc1 = "if upsert_ok br ?n then sc + 1 else sc"
  let ?fc1 = "if upsert_ok br ?n then fc else fc + 1"
  have step: "sync_one br i (s, sc, fc) = (?s1, ?sc1, ?fc1)"
    using sync_one_record [OF Cons.prems(1) i rec_i, of br sc fc] Cons.prems(1) by simp
  have p1: "locations ?s1 = JArr ?xs1 ps" by simp
  have p2: "list_all location_record ?xs1"
    using Cons.prems(2) rec_i by (simp add: records_update mark_record)
  have p3: "\<forall>j\<in>set is. j < length ?xs1" using Cons.prems(3) by simp
  have p4: "distinct is" using Cons.prems(4) by simp
  from Cons.IH [OF p1 p2 p3 p4, of ?sc1 ?fc1] obtain xs' calls where
    run: "sync_each br is (?s1, ?sc1, ?fc1)
             = (?s1\<lparr>sent := sent ?s1 @ calls, locations := JArr xs' ps\<rparr>,
                ?sc1 + length (filter (\<lambda>k. upsert_ok br (length (sent ?s1) + k)) [0..<length is]),
                ?fc1 + length (filter (\<lambda>k. \<not> upsert_ok br (length (sent ?s1) + k)) [0..<length is]))"
    and lc: "length calls = length is"
    and len: "length xs' = length ?xs1" and recs: "list_all location_record xs'"
    and at: "\<forall>k<length is. xs' ! (is ! k)
               = (if upsert_ok br (length (sent ?s1) + k) then mark (?xs1 ! (is ! k)) else ?xs1 ! (is ! k))"
    and off: "\<forall>j. j \<notin> set is \<longrightarrow> xs' ! j = ?xs1 ! j" by blast
  have ni: "i \<notin> set is" using Cons.prems(4) by simp
  have cnt: "\<And>P. length (filter P [0..<length (i # is)])
        = (if P 0 then 1 else 0) + length (filter (\<lambda>k. P (Suc k)) [0..<length is])"
  proof -
    fix P :: "nat \<Rightarrow> bool"
    have "[0..<length (i # is)] = 0 # map Suc [0..<length is]"
      by (simp add: upt_conv_Cons map_Suc_upt del: upt_Suc)
    then show "length (filter P [0..<length (i # is)])
        = (if P 0 then 1 else 0) + length (filter (\<lambda>k. P (Suc k)) [0..<length is])"
      by (simp add: filter_map o_def)
  qed
  have eq: "sync_each br (i # is) (s, sc, fc)
             = (s\<lparr>sent := sent s @ (?call # calls), locations := JArr xs' ps\<rparr>,
                sc + length (filter (\<lambda>k. upsert_ok br (?n + k)) [0..<length (i # is)]),
                fc + length (filter (\<lambda>k. \<not> upsert_ok br (?n + k)) [0..<length (i # is)]))"
    unfolding cnt using step run by simp
  have at': "\<forall>k<length (i # is). xs' ! ((i # is) ! k)
               = (if upsert_ok br (?n + k) then mark (xs ! ((i # is) ! k)) else xs ! ((i # is) ! k))"
  proof (intro allI impI)
    fix k assume k: "k < length (i # is)"
    show "xs' ! ((i # is) ! k)
               = (if upsert_ok br (?n + k) then mark (xs ! ((i # is) ! k)) else xs ! ((i # is) ! k))"
    proof (cases k)
      case 0
      with off ni i show ?thesis by simp
    next
      case (Suc k')
      with k have k': "k' < length is" by simp
      then have "is ! k' \<noteq> i" using ni by (metis nth_mem)
      with at k' Suc show ?thesis by simp
    qed
  qed
  have off': "\<forall>j. j \<notin> set (i # is) \<longrightarrow> xs' ! j = xs ! j"
    using off by simp
  show ?case
    by (rule exI [of _ xs'], rule exI [of _ "?call # calls"])
       (use eq lc len recs at' off' in simp)
qed

lemma pending_set: "set (pending xs) = {j. j < length xs \<and> \<not> truthy (field ''synced'' (xs ! j))}"
  by (auto simp: pending_def)

lemma pending_distinct: "distinct (pending xs)"
  by (simp add: pending_def)

lemma unsynced_records:
  "list_all location_record xs \<Longrightarrow> unsynced (JArr xs ps) = Inr (pending xs)"
  by (simp add: unsynced_def no_nullish_records)

lemma no_failure_iff:
  "(length (filter (\<lambda>k. \<not> P k) [0..<n]) = 0) = (\<forall>k<n. P k)"
  by (auto simp: filter_empty_conv)

lemma syncNow_run:
  assumes "locations s = JArr xs ps" and "list_all location_record xs" and "\<not> isSyncing s"
  shows "\<exists>xs' calls.
           fst (syncNow br now s) = None
         \<and> locations (snd (syncNow br now s)) = JArr xs' ps
         \<and> length xs' = length xs
         \<and> (\<forall>k<length (pending xs). xs' ! (pending xs ! k)
               = (if upsert_ok br (length (sent s) + k) then mark (xs ! (pending xs ! k))
                  else xs ! (pending xs ! k)))
         \<and> (\<forall>j. j \<notin> set (pending xs) \<longrightarrow> xs' ! j = xs ! j)
         \<and> sent (snd (syncNow br now s)) = sent s @ calls
         \<and> length calls = length (pending xs)
         \<and> \<not> isSyncing (snd (syncNow br now s))
         \<and> syncIndicator (snd (syncNow br now s))
             = (if \<forall>k<length (pending xs). upsert_ok br (length (sent s) + k)
                then ''online'' else ''offline'')
         \<and> offlineMode (snd (syncNow br now s))
             = (if pending xs \<noteq> [] \<and> (\<forall>k<length (pending xs). upsert_ok br (length (sent s) + k))
                then False else offlineMode s)"
proof (cases "pending xs = []")
  case True
  show ?thesis
    by (rule exI [of _ xs], rule exI [of _ "[]"])
       (use assms True in \<open>simp add: syncNow_def unsynced_records Let_def\<close>)
next
  case False
  let ?s1 = "app_log [Txt ''Starting manual sync...''] ''info''
               (updateSyncIndicator ''syncing'' (s\<lparr>isSyncing := True\<rparr>))"
  let ?N = "length (pending xs)"
  have l1: "locations ?s1 = JArr xs ps" using assms(1) by simp
  have b: "\<forall>i\<in>set (pending xs). i < length xs" by (simp add: pending_set)
  from sync_each_records [OF l1 assms(2) b pending_distinct, of br 0 0] obtain xs' calls where
    run: "sync_each br (pending xs) (?s1, 0, 0)
             = (?s1\<lparr>sent := sent ?s1 @ calls, locations := JArr xs' ps\<rparr>,
                0 + length (filter (\<lambda>k. upsert_ok br (length (sent ?s1) + k)) [0..<?N]),
                0 + length (filter (\<lambda>k. \<not> upsert_ok br (length (sent ?s1) + k)) [0..<?N]))"
    and lc: "length calls = ?N"
    and len: "length xs' = length xs" and recs: "list_all location_record xs'"
    and at: "\<forall>k<?N. xs' ! (pending xs ! k)
               = (if upsert_ok br (length (sent ?s1) + k) then mark (xs ! (pending xs ! k))
                  else xs ! (pending xs ! k))"
    and off: "\<forall>j. j \<notin> set (pending xs) \<longrightarrow> xs' ! j = xs ! j" by blast
  have shown: "updateLocationList
                 (saveToLocalStorage br (?s1\<lparr>sent := sent s @ calls, locations := JArr xs' ps\<rparr>))
               = None"
    by (rule updateLocationList_records) (simp add: recs)
  have sent1: "sent ?s1 = sent s" by simp
  show ?thesis
    apply (rule exI [of _ xs'], rule exI [of _ calls])
    using assms False run [unfolded sent1] lc len at [unfolded sent1] off shown
    apply (simp add: syncNow_def unsynced_records Let_def no_failure_iff)
    apply (auto simp: filter_empty_conv)
    done
qed

lemma card_split_less:
  "card {k. k < n \<and> P k} = n - card {k. k < n \<and> \<not> P k}"
proof -
  have fin: "finite {k. k < n \<and> P k}" "finite {k. k < n \<and> \<not> P k}" by simp_all
  have "{k. k < n \<and> P k} \<union> {k. k < n \<and> \<not> P k} = {..<n}" by auto
  moreover have "{k. k < n \<and> P k} \<inter> {k. k < n \<and> \<not> P k} = {}" by auto
  ultimately have "card {k. k < n \<and> P k} + card {k. k < n \<and> \<not> P k} = n"
    using card_Un_disjoint [OF fin] by simp
  then show ?thesis by simp
qed


subsection \<open>\<^verbatim>\<open>syncNow\<close>\<close>

text \<open>
  Claim C1, as amended. For a store of location records (objects with a number as id whose
  shown fields convert to strings) with N pending ones and no sync in flight, \<^verbatim>\<open>syncNow\<close> returns with the flag released and the store an array of the same
  length in which a pending record is synced exactly when its upsert (the k-th call, for the
  k-th pending record) got an \<^verbatim>\<open>ok\<close> response, and every other record is untouched; the
  number of records that flipped is N minus the number of failed upserts. With N > 0 and no
  failure every record is synced, the indicator is online and the offline-mode flag is
  cleared; with a failure the indicator is offline. With N = 0 nothing is sent, the store
  is unchanged, the indicator is online and the offline-mode flag is left as it was.
\<close>

theorem syncNow_marks_successful_upserts:
  assumes "locations s = JArr xs []" and "list_all location_record xs" and "\<not> isSyncing s"
  shows "fst (syncNow br now s) = None
       \<and> \<not> isSyncing (snd (syncNow br now s))
       \<and> (\<exists>xs'. locations (snd (syncNow br now s)) = JArr xs' [] \<and> length xs' = length xs)
       \<and> (\<forall>k<length (pending xs).
             truthy (field ''synced'' (element (pending xs ! k) (locations (snd (syncNow br now s)))))
               = upsert_ok br (length (sent s) + k))
       \<and> (\<forall>j<length xs. j \<notin> set (pending xs) \<longrightarrow>
             element j (locations (snd (syncNow br now s))) = xs ! j)
       \<and> card {j. j < length xs \<and> \<not> truthy (field ''synced'' (xs ! j))
                  \<and> truthy (field ''synced'' (element j (locations (snd (syncNow br now s)))))}
           = length (pending xs)
               - card {k. k < length (pending xs) \<and> \<not> upsert_ok br (length (sent s) + k)}
       \<and> (pending xs \<noteq> [] \<and> (\<forall>k<length (pending xs). upsert_ok br (length (sent s) + k)) \<longrightarrow>
             (\<forall>j<length xs.
                truthy (field ''synced'' (element j (locations (snd (syncNow br now s))))))
             \<and> syncIndicator (snd (syncNow br now s)) = ''online''
             \<and> \<not> offlineMode (snd (syncNow br now s)))
       \<and> ((\<exists>k<length (pending xs). \<not> upsert_ok br (length (sent s) + k)) \<longrightarrow>
             syncIndicator (snd (syncNow br now s)) = ''offline'')
       \<and> (pending xs = [] \<longrightarrow>
             locations (snd (syncNow br now s)) = locations s
             \<and> sent (snd (syncNow br now s)) = sent s
             \<and> syncIndicator (snd (syncNow br now s)) = ''online''
             \<and> offlineMode (snd (syncNow br now s)) = offlineMode s)"
proof -
  let ?r = "syncNow br now s"
  let ?N = "length (pending xs)"
  let ?ok = "\<lambda>k. upsert_ok br (length (sent s) + k)"
  from syncNow_run [OF assms, of br now] obtain xs' calls where
    fin: "fst ?r = None" and loc: "locations (snd ?r) = JArr xs' []"
    and len: "length xs' = length xs"
    and at: "\<forall>k<?N. xs' ! (pending xs ! k)
               = (if ?ok k then mark (xs ! (pending xs ! k)) else xs ! (pending xs ! k))"
    and off: "\<forall>j. j \<notin> set (pending xs) \<longrightarrow> xs' ! j = xs ! j"
    and calls: "sent (snd ?r) = sent s @ calls" "length calls = ?N"
    and flag: "\<not> isSyncing (snd ?r)"
    and ind: "syncIndicator (snd ?r) = (if \<forall>k<?N. ?ok k then ''online'' else ''offline'')"
    and offl: "offlineMode (snd ?r)
                 = (if pending xs \<noteq> [] \<and> (\<forall>k<?N. ?ok k) then False else offlineMode s)"
    by blast
  have el: "\<And>j. j < length xs \<Longrightarrow> element j (locations (snd ?r)) = xs' ! j"
    using loc len by (simp add: element_def)
  have mem: "\<And>k. k < ?N \<Longrightarrow> pending xs ! k \<in> {j. j < length xs \<and> \<not> truthy (field ''synced'' (xs ! j))}"
    unfolding pending_set [symmetric] by (rule nth_mem)
  have pend_lt: "\<And>k. k < ?N \<Longrightarrow> pending xs ! k < length xs"
    using mem by simp
  have pend_un: "\<And>k. k < ?N \<Longrightarrow> \<not> truthy (field ''synced'' (xs ! (pending xs ! k)))"
    using mem by simp
  have rec: "\<And>j. j < length xs \<Longrightarrow> location_record (xs ! j)"
    using assms(2) by (simp add: list_all_length)
  have a: "\<And>k. k < ?N \<Longrightarrow> truthy (field ''synced'' (xs' ! (pending xs ! k))) = ?ok k"
    using at pend_un mark_synced [OF rec [OF pend_lt]] by simp
  have a': "\<forall>k<?N. truthy (field ''synced'' (element (pending xs ! k) (locations (snd ?r)))) = ?ok k"
    using a el [OF pend_lt] by simp
  have b': "\<forall>j<length xs. j \<notin> set (pending xs) \<longrightarrow> element j (locations (snd ?r)) = xs ! j"
    using off el by simp
  have flipped: "{j. j < length xs \<and> \<not> truthy (field ''synced'' (xs ! j))
                  \<and> truthy (field ''synced'' (element j (locations (snd ?r))))}
               = (\<lambda>k. pending xs ! k) ` {k. k < ?N \<and> ?ok k}" (is "?F = ?G")
  proof (rule set_eqI)
    fix j
    show "(j \<in> ?F) = (j \<in> ?G)"
    proof
      assume "j \<in> ?F"
      then have j: "j < length xs" "\<not> truthy (field ''synced'' (xs ! j))"
        and t: "truthy (field ''synced'' (element j (locations (snd ?r))))" by simp_all
      from j have "j \<in> set (pending xs)" by (simp add: pending_set)
      then obtain k where k: "k < ?N" "pending xs ! k = j" by (auto simp: in_set_conv_nth)
      with a' t have "?ok k" by auto
      with k show "j \<in> ?G" by auto
    next
      assume "j \<in> ?G"
      then obtain k where k: "k < ?N" "?ok k" "j = pending xs ! k" by auto
      with a' pend_lt pend_un show "j \<in> ?F" by auto
    qed
  qed
  have inj: "inj_on (\<lambda>k. pending xs ! k) {k. k < ?N \<and> ?ok k}"
    using pending_distinct [of xs] by (auto simp: inj_on_def nth_eq_iff_index_eq)
  have c': "card ?F = ?N - card {k. k < ?N \<and> \<not> ?ok k}"
    unfolding flipped card_image [OF inj] by (rule card_split_less)
  have d': "pending xs \<noteq> [] \<and> (\<forall>k<?N. ?ok k) \<longrightarrow>
             (\<forall>j<length xs. truthy (field ''synced'' (element j (locations (snd ?r)))))
             \<and> syncIndicator (snd ?r) = ''online'' \<and> \<not> offlineMode (snd ?r)"
  proof (intro impI conjI allI)
    assume h: "pending xs \<noteq> [] \<and> (\<forall>k<?N. ?ok k)"
    show "syncIndicator (snd ?r) = ''online''" using h ind by simp
    show "\<not> offlineMode (snd ?r)" using h offl by simp
    fix j assume j: "j < length xs"
    show "truthy (field ''synced'' (element j (locations (snd ?r))))"
    proof (cases "j \<in> set (pending xs)")
      case True
      then obtain k where k: "k < ?N" "pending xs ! k = j" by (auto simp: in_set_conv_nth)
      with a' h show ?thesis by auto
    next
      case False
      with j have "truthy (field ''synced'' (xs ! j))" by (simp add: pending_set)
      with b' j False show ?thesis by simp
    qed
  qed
  have e': "(\<exists>k<?N. \<not> ?ok k) \<longrightarrow> syncIndicator (snd ?r) = ''offline''"
    using ind by auto
  have f': "pending xs = [] \<longrightarrow>
             locations (snd ?r) = locations s \<and> sent (snd ?r) = sent s
             \<and> syncIndicator (snd ?r) = ''online'' \<and> offlineMode (snd ?r) = offlineMode s"
  proof
    assume h: "pending xs = []"
    have "xs' = xs"
    proof (rule nth_equalityI)
      show "length xs' = length xs" by (rule len)
    next
      fix j assume "j < length xs'"
      show "xs' ! j = xs ! j" using off h by simp
    qed
    with h loc calls ind offl assms(1) show "locations (snd ?r) = locations s \<and> sent (snd ?r) = sent s
             \<and> syncIndicator (snd ?r) = ''online'' \<and> offlineMode (snd ?r) = offlineMode s"
      by simp
  qed
  have g': "\<exists>xs'. locations (snd ?r) = JArr xs' [] \<and> length xs' = length xs"
    using loc len by blast
  show ?thesis
    by (intro conjI) (rule fin flag g' a' b' c' d' e' f')+
qed

theorem syncNow_marks_successful_upserts_witness:
  "syncIndicator (snd (syncNow (demo_browser (\<lambda>k. Responded 201)) 7 pending_app)) = ''online''
   \<and> \<not> offlineMode (snd (syncNow (demo_browser (\<lambda>k. Responded 201)) 7 pending_app))
   \<and> truthy (field ''synced'' (element 2
        (locations (snd (syncNow (demo_browser (\<lambda>k. Responded 201)) 7 pending_app)))))
   \<and> syncIndicator (snd (syncNow (demo_browser (\<lambda>k. if k = 0 then Responded 201 else Rejected))
                              7 pending_app)) = ''offline''
   \<and> truthy (field ''synced'' (element 0
        (locations (snd (syncNow (demo_browser (\<lambda>k. if k = 0 then Responded 201 else Rejected))
                              7 pending_app)))))
   \<and> \<not> truthy (field ''synced'' (element 2
        (locations (snd (syncNow (demo_browser (\<lambda>k. if k = 0 then Responded 201 else Rejected))
                              7 pending_app)))))
   \<and> sent (snd (syncNow (demo_browser (\<lambda>k. Rejected)) 7 (synced_app False))) = []"
proof -
  let ?all = "demo_browser (\<lambda>k. Responded 201)"
  let ?one = "demo_browser (\<lambda>k. if k = 0 then Responded 201 else Rejected)"
  note a = syncNow_marks_successful_upserts
             [OF pending_app_store(1) pending_app_records(1) pending_app_store(2), of ?all 7,
              unfolded pending_app_pending pending_app_store(4)]
  note b = syncNow_marks_successful_upserts
             [OF pending_app_store(1) pending_app_records(1) pending_app_store(2), of ?one 7,
              unfolded pending_app_pending pending_app_store(4)]
  have s0: "locations (synced_app False) = JArr [observation 1700000000000 ''kudzu'' True] []"
    "list_all location_record [observation 1700000000000 ''kudzu'' True]"
    "\<not> isSyncing (synced_app False)"
    "pending [observation 1700000000000 ''kudzu'' True] = []" "sent (synced_app False) = []"
    by (simp_all add: synced_app_def initial_app_def observation_def is_number_def pending_def
        item_throws_def)
  note c = syncNow_marks_successful_upserts
             [OF s0(1-3), of "demo_browser (\<lambda>k. Rejected)" 7, unfolded s0(4,5)]
  have all_ok: "\<forall>k<length [0::nat, 2]. upsert_ok ?all (length ([]::remote_call list) + k)"
    by (simp add: upsert_ok_demo)
  have one_bad: "\<exists>k<length [0::nat, 2]. \<not> upsert_ok ?one (length ([]::remote_call list) + k)"
    by (rule exI [of _ 1]) (simp add: upsert_ok_demo)
  have k0: "upsert_ok ?one (length ([]::remote_call list) + 0)"
    and k1: "\<not> upsert_ok ?one (length ([]::remote_call list) + 1)"
    by (simp_all add: upsert_ok_demo)
  from a all_ok have p1:
    "syncIndicator (snd (syncNow ?all 7 pending_app)) = ''online''
     \<and> \<not> offlineMode (snd (syncNow ?all 7 pending_app))
     \<and> truthy (field ''synced'' (element 2 (locations (snd (syncNow ?all 7 pending_app)))))"
    by simp
  from b one_bad have p2: "syncIndicator (snd (syncNow ?one 7 pending_app)) = ''offline''"
    by blast
  from b have each: "\<forall>k<length [0::nat, 2].
             truthy (field ''synced'' (element ([0, 2] ! k) (locations (snd (syncNow ?one 7 pending_app)))))
               = upsert_ok ?one (length ([]::remote_call list) + k)" by blast
  from each [rule_format, of 0] k0 have p3:
    "truthy (field ''synced'' (element 0 (locations (snd (syncNow ?one 7 pending_app)))))" by simp
  from each [rule_format, of 1] k1 have p4:
    "\<not> truthy (field ''synced'' (element 2 (locations (snd (syncNow ?one 7 pending_app)))))" by simp
  from c have p5: "sent (snd (syncNow (demo_browser (\<lambda>k. Rejected)) 7 (synced_app False))) = []"
    by simp
  from p1 p2 p3 p4 p5 show ?thesis by simp
qed


text \<open>
  The claim C1 as first stated fails when nothing is pending: the function returns early,
  before the line that clears \<^verbatim>\<open>offlineMode\<close>. No upsert failed (none was sent), the
  indicator says online, and the flag is still set.
\<close>

theorem syncNow_offline_flag_counterexample:
  "locations (synced_app True) = JArr [observation 1700000000000 ''kudzu'' True] []
   \<and> pending [observation 1700000000000 ''kudzu'' True] = []
   \<and> offlineMode (synced_app True)
   \<and> fst (syncNow (demo_browser (\<lambda>k. Responded 201)) 0 (synced_app True)) = None
   \<and> sent (snd (syncNow (demo_browser (\<lambda>k. Responded 201)) 0 (synced_app True))) = []
   \<and> syncIndicator (snd (syncNow (demo_browser (\<lambda>k. Responded 201)) 0 (synced_app True))) = ''online''
   \<and> offlineMode (snd (syncNow (demo_browser (\<lambda>k. Responded 201)) 0 (synced_app True)))"
  by (simp add: synced_app_def initial_app_def observation_def pending_def syncNow_def
      unsynced_def Let_def)






text \<open>
  So it does when the list cannot be written after the loop: the upsert of the pending record
  was sent, and \<^verbatim>\<open>updateLocationList\<close> throws before the flag is reset.
\<close>

lemma syncNow_unshown_record:
  "fst (syncNow (demo_browser (\<lambda>k. Responded 201)) 7 unshown_app) = Some TypeError
   \<and> isSyncing (snd (syncNow (demo_browser (\<lambda>k. Responded 201)) 7 unshown_app))
   \<and> length (sent (snd (syncNow (demo_browser (\<lambda>k. Responded 201)) 7 unshown_app))) = 1
   \<and> syncIndicator (snd (syncNow (demo_browser (\<lambda>k. Responded 201)) 7 unshown_app)) = ''syncing''"
  by (simp add: unshown_app_def initial_app_def observation_def syncNow_def unsynced_def
      pending_def upt_rec sync_one_def element_def upsert_body_def demo_browser_def
      response_ok_def assign_synced_def updateLocationList_def item_throws_def Let_def)

end
